theory Spec2Isabelle
  imports Main
begin

section \<open>JavaScript values\<close>

text \<open>
  The request handled by \<^verbatim>\<open>composetx.js\<close> is an untyped JavaScript object. The
  validator \<^verbatim>\<open>params\<close> inspects it with \<^verbatim>\<open>typeof\<close>, truthiness, \<^verbatim>\<open>parseInt\<close>,
  \<^verbatim>\<open>+=\<close> and a comparison with zero, so the embedding starts with a datatype of
  JavaScript values and these operations.

  Numbers are idealised: a number is an integer of any size or \<open>NaN\<close>. Fractions,
  infinities, the negative zero and the rounding of IEEE doubles are outside the
  model. Strings are lists of 8-bit characters (code points below 256). Objects are
  association lists from property names to values; the first entry of a name is the
  property. Objects carry no prototype and no user-defined \<^verbatim>\<open>toString\<close>.
\<close>

datatype jsnum = NaN | Fin int

datatype jsval =
    Undefined
  | Null
  | Bool bool
  | Num jsnum
  | Str string
  | Arr "jsval list"
  | Obj "(string \<times> jsval) list"

type_synonym jsobj = "(string \<times> jsval) list"

text \<open>Reading a property of an object literal: an absent property is \<^verbatim>\<open>undefined\<close>.\<close>

definition field :: "jsobj \<Rightarrow> string \<Rightarrow> jsval" where
  "field obj k = (case map_of obj k of None \<Rightarrow> Undefined | Some v \<Rightarrow> v)"

text \<open>\<^verbatim>\<open>typeof v === 'string'\<close> and \<^verbatim>\<open>typeof v === 'number'\<close>.\<close>

fun is_string :: "jsval \<Rightarrow> bool" where
  "is_string (Str s) = True"
| "is_string v = False"

fun is_number :: "jsval \<Rightarrow> bool" where
  "is_number (Num n) = True"
| "is_number v = False"

text \<open>The conversion to boolean that \<^verbatim>\<open>&&\<close> and \<^verbatim>\<open>if\<close> apply.\<close>

fun truthy :: "jsval \<Rightarrow> bool" where
  "truthy Undefined = False"
| "truthy Null = False"
| "truthy (Bool b) = b"
| "truthy (Num NaN) = False"
| "truthy (Num (Fin n)) = (n \<noteq> 0)"
| "truthy (Str s) = (s \<noteq> [])"
| "truthy (Arr xs) = True"
| "truthy (Obj kvs) = True"

subsection \<open>Conversion to string\<close>

definition digit_char :: "nat \<Rightarrow> char" where
  "digit_char d = ''0123456789'' ! (d mod 10)"

text \<open>The decimal digits of an integer that is not negative.\<close>

function show_digits :: "int \<Rightarrow> string" where
  "show_digits n =
    (if n < 10 then [digit_char (nat n)]
     else show_digits (n div 10) @ [digit_char (nat (n mod 10))])"
  by pat_completeness auto
termination
  by (relation "measure nat") auto

declare show_digits.simps [simp del]

definition show_int :: "int \<Rightarrow> string" where
  "show_int n = (if n < 0 then CHR ''-'' # show_digits (- n) else show_digits n)"

text \<open>
  \<^verbatim>\<open>Number.prototype.toString\<close>: decimal digits below \<open>10^21\<close>, exponent notation from
  there on (the digits after the first, without trailing zeros, follow a point).
\<close>

definition number_to_string :: "jsnum \<Rightarrow> string" where
  "number_to_string x =
    (case x of
      NaN \<Rightarrow> ''NaN''
    | Fin n \<Rightarrow>
        if \<bar>n\<bar> < 10 ^ 21 then show_int n
        else
          let ds = show_digits \<bar>n\<bar>;
              frac = rev (dropWhile (\<lambda>c. c = CHR ''0'') (rev (tl ds)))
          in (if n < 0 then ''-'' else [])
             @ [hd ds] @ (if frac = [] then [] else CHR ''.'' # frac)
             @ ''e+'' @ show_digits (int (length ds) - 1))"

fun join_comma :: "string list \<Rightarrow> string" where
  "join_comma [] = []"
| "join_comma [s] = s"
| "join_comma (s # t) = s @ '','' @ join_comma t"

text \<open>
  \<^verbatim>\<open>ToString\<close>. An array is the comma-separated list of its elements, where
  \<^verbatim>\<open>undefined\<close> and \<^verbatim>\<open>null\<close> elements are empty; a plain object is
  \<^verbatim>\<open>[object Object]\<close>.
\<close>

fun to_string :: "jsval \<Rightarrow> string"
  and element_to_string :: "jsval \<Rightarrow> string" where
  "to_string Undefined = ''undefined''"
| "to_string Null = ''null''"
| "to_string (Bool b) = (if b then ''true'' else ''false'')"
| "to_string (Num n) = number_to_string n"
| "to_string (Str s) = s"
| "to_string (Arr xs) = join_comma (map element_to_string xs)"
| "to_string (Obj kvs) = ''[object Object]''"
| "element_to_string Undefined = []"
| "element_to_string Null = []"
| "element_to_string (Bool b) = to_string (Bool b)"
| "element_to_string (Num n) = to_string (Num n)"
| "element_to_string (Str s) = to_string (Str s)"
| "element_to_string (Arr xs) = to_string (Arr xs)"
| "element_to_string (Obj kvs) = to_string (Obj kvs)"

subsection \<open>\<^verbatim>\<open>parseInt\<close>\<close>

definition is_ws :: "char \<Rightarrow> bool" where
  "is_ws c = (c \<in> set [CHR 0x09, CHR 0x0A, CHR 0x0B, CHR 0x0C, CHR 0x0D, CHR 0x20, CHR 0xA0])"

definition digit_val :: "char \<Rightarrow> nat option" where
  "digit_val c =
    (let n = (of_char c :: nat) in
     if 48 \<le> n \<and> n \<le> 57 then Some (n - 48)
     else if 97 \<le> n \<and> n \<le> 122 then Some (n - 87)
     else if 65 \<le> n \<and> n \<le> 90 then Some (n - 55)
     else None)"

definition is_radix_digit :: "nat \<Rightarrow> char \<Rightarrow> bool" where
  "is_radix_digit r c = (case digit_val c of None \<Rightarrow> False | Some d \<Rightarrow> d < r)"

definition digits_value :: "nat \<Rightarrow> string \<Rightarrow> int" where
  "digits_value r z =
    foldl (\<lambda>acc c. acc * int r + (case digit_val c of None \<Rightarrow> 0 | Some d \<Rightarrow> int d)) 0 z"

text \<open>
  \<^verbatim>\<open>parseInt(string)\<close> with no radix: leading white space is skipped, a sign is read,
  a prefix \<^verbatim>\<open>0x\<close> selects radix 16, and the longest prefix of digits is the value;
  with no digit the result is \<open>NaN\<close>.
\<close>

definition parseInt_string :: "string \<Rightarrow> jsnum" where
  "parseInt_string inputString =
    (let s = dropWhile is_ws inputString;
         negative = (take 1 s = ''-'');
         s1 = (if take 1 s = ''+'' \<or> take 1 s = ''-'' then drop 1 s else s);
         hex = (take 2 s1 = ''0x'' \<or> take 2 s1 = ''0X'');
         s2 = (if hex then drop 2 s1 else s1);
         r = (if hex then 16 else 10);
         z = takeWhile (is_radix_digit r) s2
     in if z = [] then NaN
        else Fin ((if negative then - 1 else 1) * digits_value r z))"

text \<open>\<^verbatim>\<open>parseInt(v)\<close> converts its argument to a string first.\<close>

definition parseInt :: "jsval \<Rightarrow> jsnum" where
  "parseInt v = parseInt_string (to_string v)"

definition isNaN :: "jsnum \<Rightarrow> bool" where
  "isNaN x = (x = NaN)"

subsection \<open>Addition and comparison with zero\<close>

text \<open>\<^verbatim>\<open>ToPrimitive\<close>: arrays and plain objects become their strings.\<close>

fun to_primitive :: "jsval \<Rightarrow> jsval" where
  "to_primitive (Arr xs) = Str (to_string (Arr xs))"
| "to_primitive (Obj kvs) = Str (to_string (Obj kvs))"
| "to_primitive v = v"

text \<open>
  \<^verbatim>\<open>ToNumber\<close> of a primitive that is not a string. (Strings never reach it: the
  addition concatenates them and the comparison uses \<open>string_gt_zero\<close>.)
\<close>

fun prim_to_number :: "jsval \<Rightarrow> jsnum" where
  "prim_to_number Null = Fin 0"
| "prim_to_number (Bool b) = Fin (if b then 1 else 0)"
| "prim_to_number (Num n) = n"
| "prim_to_number v = NaN"

text \<open>
  The sum of two numbers. It is the exact sum of the integers: above \<open>2^53\<close> the
  doubles of the code round, which the idealised numbers do not.
\<close>

fun num_add :: "jsnum \<Rightarrow> jsnum \<Rightarrow> jsnum" where
  "num_add (Fin a) (Fin b) = Fin (a + b)"
| "num_add x y = NaN"

text \<open>The operator \<^verbatim>\<open>+\<close>: concatenation as soon as one side is a string.\<close>

definition js_add :: "jsval \<Rightarrow> jsval \<Rightarrow> jsval" where
  "js_add a b =
    (let pa = to_primitive a; pb = to_primitive b in
     if is_string pa \<or> is_string pb then Str (to_string pa @ to_string pb)
     else Num (num_add (prim_to_number pa) (prim_to_number pb)))"

definition is_dec_digit :: "char \<Rightarrow> bool" where
  "is_dec_digit c = (c \<in> set ''0123456789'')"

definition trim :: "string \<Rightarrow> string" where
  "trim s = rev (dropWhile is_ws (rev (dropWhile is_ws s)))"

text \<open>The rest of a decimal literal after its digits: nothing, or an exponent part.\<close>

definition exponent_ok :: "string \<Rightarrow> bool" where
  "exponent_ok s =
    (if s = [] then True
     else (take 1 s = ''e'' \<or> take 1 s = ''E'') \<and>
       (let t = drop 1 s;
            u = (if take 1 t = ''+'' \<or> take 1 t = ''-'' then drop 1 t else t)
        in u \<noteq> [] \<and> list_all is_dec_digit u))"

text \<open>
  Whether an unsigned decimal literal of \<^verbatim>\<open>ToNumber\<close> (digits, an optional point and
  fraction, an optional exponent, or \<^verbatim>\<open>Infinity\<close>) denotes a number above zero. The
  exponent does not change the sign (the idealised numbers do not underflow).
\<close>

definition unsigned_decimal_positive :: "string \<Rightarrow> bool" where
  "unsigned_decimal_positive s =
    (if s = ''Infinity'' then True
     else
       let ip = takeWhile is_dec_digit s;
           r1 = dropWhile is_dec_digit s;
           has_dot = (take 1 r1 = ''.'');
           fp = (if has_dot then takeWhile is_dec_digit (drop 1 r1) else []);
           r2 = (if has_dot then dropWhile is_dec_digit (drop 1 r1) else r1)
       in ip @ fp \<noteq> [] \<and> exponent_ok r2 \<and> list_ex (\<lambda>c. c \<noteq> CHR ''0'') (ip @ fp))"

definition nondecimal_positive :: "string \<Rightarrow> bool" where
  "nondecimal_positive s =
    (let p = take 2 s;
         ds = drop 2 s;
         r = (if p = ''0x'' \<or> p = ''0X'' then 16
              else if p = ''0o'' \<or> p = ''0O'' then 8
              else if p = ''0b'' \<or> p = ''0B'' then 2
              else (0::nat))
     in ds \<noteq> [] \<and> list_all (is_radix_digit r) ds \<and> list_ex (\<lambda>c. c \<noteq> CHR ''0'') ds)"

text \<open>\<^verbatim>\<open>ToNumber(s) > 0\<close> for a string \<open>s\<close>.\<close>

definition string_gt_zero :: "string \<Rightarrow> bool" where
  "string_gt_zero s =
    (let t = trim s in
     if nondecimal_positive t then True
     else if take 1 t = ''+'' then unsigned_decimal_positive (drop 1 t)
     else unsigned_decimal_positive t)"

text \<open>\<^verbatim>\<open>v > 0\<close>: false for \<open>NaN\<close> and for anything that does not convert to a number.\<close>

definition js_gt_zero :: "jsval \<Rightarrow> bool" where
  "js_gt_zero v =
    (case to_primitive v of
      Str s \<Rightarrow> string_gt_zero s
    | p \<Rightarrow> (case prim_to_number p of NaN \<Rightarrow> False | Fin n \<Rightarrow> 0 < n))"

text \<open>
  Reading a property of an arbitrary value (\<^verbatim>\<open>out.type\<close>): a \<^verbatim>\<open>TypeError\<close> on
  \<^verbatim>\<open>undefined\<close> and \<^verbatim>\<open>null\<close>, the property of an object, and \<^verbatim>\<open>undefined\<close> on
  the other values (none of the names this code reads is a built-in property).
\<close>

fun get_prop :: "jsval \<Rightarrow> string \<Rightarrow> jsval option" where
  "get_prop Undefined k = None"
| "get_prop Null k = None"
| "get_prop (Obj kvs) k = Some (field kvs k)"
| "get_prop v k = Some Undefined"

section \<open>Data model\<close>

text \<open>
  \<^verbatim>\<open>CoinInfo\<close> (backend/CoinInfo, imported as a type only): the fields this file
  reads, \<^verbatim>\<open>name\<close>, \<^verbatim>\<open>network.pubKeyHash\<close>, \<^verbatim>\<open>network.scriptHash\<close>,
  \<^verbatim>\<open>segwit\<close> and \<^verbatim>\<open>minFee\<close>.
\<close>

record network =
  pubKeyHash :: int
  scriptHash :: int

record coin_info =
  name :: string
  network :: network
  segwit :: bool
  minFee :: int

text \<open>
  \<^verbatim>\<open>trezor.SignedTx\<close> (device/trezorTypes, imported as a type only): the object
  \<^verbatim>\<open>signedtx.message.serialized\<close>, with the field \<^verbatim>\<open>serialized_tx\<close> that
  \<^verbatim>\<open>method\<close> sends to the backend and the signatures of the device. The two objects
  that \<^verbatim>\<open>method\<close> builds from it with a spread extend it: the object thrown when the
  broadcast fails puts \<^verbatim>\<open>custom\<close> and \<^verbatim>\<open>error\<close> before its fields, the returned
  object puts \<^verbatim>\<open>txid\<close> before them (\<open>None\<close> is \<^verbatim>\<open>undefined\<close>).
\<close>

record serialized =
  signatures :: "string list"
  serialized_tx :: string

record push_failure = serialized +
  custom :: bool
  error :: string

record signed_result = serialized +
  txid :: "string option"

text \<open>
  What a function of this file throws: \<^verbatim>\<open>new Error(message)\<close>, a \<^verbatim>\<open>TypeError\<close> of
  the runtime (a property read on \<^verbatim>\<open>undefined\<close>), or the object of a failed broadcast.
\<close>

datatype thrown = Error string | TypeError | PushFailure push_failure

text \<open>
  The parsed outputs: \<^verbatim>\<open>{type: 'opreturn', dataHex}\<close>, \<^verbatim>\<open>{type: 'send-max', address}\<close>
  and \<^verbatim>\<open>{type: 'complete', address, amount}\<close>. \<^verbatim>\<open>dataHex\<close> and the address of a
  send-max output are copied from the request unchecked, so they are any value.
\<close>

datatype "output" = OpReturn jsval | SendMax jsval | Complete string jsnum

text \<open>
  The \<^verbatim>\<open>input\<close> of the method. Its field \<^verbatim>\<open>total\<close> is written \<open>total'\<close>
  (\<open>total\<close> is a constant of HOL); it is a number or, after the addition of a
  string amount, a string.
\<close>

record input =
  outputs :: "output list"
  locktime :: jsnum
  coinInfo :: coin_info
  total' :: jsval
  pushTransaction :: bool

text \<open>
  The \<^verbatim>\<open>MethodParams\<close> that \<^verbatim>\<open>params\<close> returns. Its fields \<^verbatim>\<open>confirmation: null\<close>
  and \<^verbatim>\<open>method\<close> (the function below) are constant and left out.
\<close>

record method_params =
  responseID :: jsval
  method_name :: string
  useUi :: bool
  useDevice :: bool
  requiredFirmware :: string
  requiredPermissions :: "string list"
  input :: input

section \<open>The request validator\<close>

text \<open>
  The collaborators of \<^verbatim>\<open>params\<close> that are imported from other modules:
  \<^verbatim>\<open>getCoinInfoByCurrency\<close> (\<open>None\<close> when the coin is unknown),
  \<^verbatim>\<open>bitcoin.address.fromBase58Check\<close> (the version of the decoded address, \<open>None\<close>
  when it throws), \<^verbatim>\<open>stringToHex\<close> and \<^verbatim>\<open>checkPermissions\<close>.
\<close>

record params_env =
  getCoinInfoByCurrency :: "string \<Rightarrow> coin_info option"
  fromBase58Check :: "string \<Rightarrow> int option"
  stringToHex :: "string \<Rightarrow> string"
  checkPermissions :: "string list \<Rightarrow> string list"

text \<open>The local variables of \<^verbatim>\<open>params\<close> that the loop over the outputs updates.\<close>

record loop_vars =
  total_var :: jsval
  hasSendMax :: bool
  parsedOutputs :: "output list"

text \<open>\<^verbatim>\<open>/^[0-9A-Fa-f]{6}$/g.test(data)\<close> on a fresh regular expression.\<close>

definition is_hex_char :: "char \<Rightarrow> bool" where
  "is_hex_char c = (c \<in> set ''0123456789ABCDEFabcdef'')"

definition re_test :: "string \<Rightarrow> bool" where
  "re_test s = (length s = 6 \<and> list_all is_hex_char s)"

text \<open>
  A property of \<open>out\<close> once \<^verbatim>\<open>out.type\<close> has been read: \<open>out\<close> is then neither
  \<^verbatim>\<open>undefined\<close> nor \<^verbatim>\<open>null\<close>, and the read cannot throw.
\<close>

definition prop_of :: "jsval \<Rightarrow> string \<Rightarrow> jsval" where
  "prop_of v k = (case get_prop v k of None \<Rightarrow> Undefined | Some x \<Rightarrow> x)"

text \<open>The branch \<^verbatim>\<open>out.type === 'opreturn'\<close>, after the check of the number of outputs.\<close>

definition opreturn_data :: "params_env \<Rightarrow> jsval \<Rightarrow> thrown + jsval" where
  "opreturn_data env out =
    (case prop_of out ''data'' of
      Str d \<Rightarrow>
        if 0 < length d then
          (if prop_of out ''dataFormat'' = Str ''text'' then
             (let h = stringToHex env d in
              if 80 * 2 < length h then Inl (Error ''OP_RETURN data size is larger than 80 bytes'')
              else Inr (Str h))
           else if \<not> re_test d then Inl (Error ''OP_RETURN data is not valid hexadecimal'')
           else if 80 * 2 < length d then Inl (Error ''OP_RETURN data size is larger than 80 bytes'')
           else Inr (Str d))
        else Inr (Str d)
    | v \<Rightarrow> Inr v)"

text \<open>
  The last branch: an output with an address and an amount. Both the \<^verbatim>\<open>throw\<close> of a
  wrong version and a throw of the decoder are caught and replaced by
  \<^verbatim>\<open>Invalid address\<close>.
\<close>

definition complete_output :: "params_env \<Rightarrow> coin_info \<Rightarrow> loop_vars \<Rightarrow> jsval \<Rightarrow> thrown + loop_vars" where
  "complete_output env ci vars out =
    (case prop_of out ''address'' of
      Str a \<Rightarrow>
        (case fromBase58Check env a of
          None \<Rightarrow> Inl (Error (''Invalid address '' @ a))
        | Some version \<Rightarrow>
            if version \<noteq> pubKeyHash (network ci) \<and> version \<noteq> scriptHash (network ci)
            then Inl (Error (''Invalid address '' @ a))
            else if (is_string (prop_of out ''amount'') \<and> isNaN (parseInt (prop_of out ''amount'')))
                    \<and> \<not> is_number (prop_of out ''amount'')
            then Inl (Error ''Output without amount'')
            else Inr (vars\<lparr>
              total_var := js_add (total_var vars) (prop_of out ''amount''),
              parsedOutputs := parsedOutputs vars @ [Complete a (parseInt (prop_of out ''amount''))]\<rparr>))
    | v \<Rightarrow> Inl (Error ''Output without address''))"

text \<open>One round of \<^verbatim>\<open>for (const out of raw.outputs)\<close>; \<open>n\<close> is \<^verbatim>\<open>raw.outputs.length\<close>.\<close>

definition parse_output :: "params_env \<Rightarrow> coin_info \<Rightarrow> nat \<Rightarrow> loop_vars \<Rightarrow> jsval \<Rightarrow> thrown + loop_vars" where
  "parse_output env ci n vars out =
    (case get_prop out ''type'' of
      None \<Rightarrow> Inl TypeError
    | Some ty \<Rightarrow>
        if ty = Str ''opreturn'' then
          (if 1 < n then Inl (Error ''Only one output allowed when sending OP_RETURN transaction'')
           else
             (case opreturn_data env out of
               Inl e \<Rightarrow> Inl e
             | Inr dataHex \<Rightarrow> Inr (vars\<lparr>parsedOutputs := parsedOutputs vars @ [OpReturn dataHex]\<rparr>)))
        else if ty = Str ''send-max'' then
          (if hasSendMax vars then Inl (Error ''Only one send-max output allowed'')
           else Inr (vars\<lparr>
             hasSendMax := True,
             parsedOutputs := parsedOutputs vars @ [SendMax (prop_of out ''address'')]\<rparr>))
        else complete_output env ci vars out)"

fun parse_outputs :: "params_env \<Rightarrow> coin_info \<Rightarrow> nat \<Rightarrow> jsval list \<Rightarrow> loop_vars \<Rightarrow> thrown + loop_vars" where
  "parse_outputs env ci n [] vars = Inr vars"
| "parse_outputs env ci n (out # rest) vars =
    (case parse_output env ci n vars out of
      Inl e \<Rightarrow> Inl e
    | Inr vars' \<Rightarrow> parse_outputs env ci n rest vars')"

text \<open>
  \<^verbatim>\<open>params\<close>: the coin, the locktime, the outputs, the total and the push flag, in
  the order of the source; the first \<^verbatim>\<open>throw\<close> is the result.
\<close>

definition params :: "params_env \<Rightarrow> jsobj \<Rightarrow> thrown + method_params" where
  "params env raw =
    (let permissions = checkPermissions env [''write''] in
     case getCoinInfoByCurrency env
            (case field raw ''coin'' of Str c \<Rightarrow> c | v \<Rightarrow> ''Bitcoin'') of
       None \<Rightarrow> Inl (Error (''Coin '' @ to_string (field raw ''coin'') @ '' not found''))
     | Some ci \<Rightarrow>
         if truthy (field raw ''locktime'') \<and> isNaN (parseInt (field raw ''locktime''))
         then Inl (Error ''Locktime is not a number'')
         else
           (case field raw ''outputs'' of
             Arr outs \<Rightarrow>
               (case parse_outputs env ci (length outs) outs
                       \<lparr>total_var = Num (Fin 0), hasSendMax = False, parsedOutputs = []\<rparr> of
                 Inl e \<Rightarrow> Inl e
               | Inr vars \<Rightarrow>
                   Inr \<lparr>responseID = field raw ''id'',
                        method_name = ''composetx'',
                        useUi = True,
                        useDevice = True,
                        requiredFirmware = ''1.5.0'',
                        requiredPermissions = permissions,
                        input = \<lparr>
                          outputs = parsedOutputs vars,
                          locktime = parseInt (field raw ''locktime''),
                          coinInfo = ci,
                          total' = (if js_gt_zero (total_var vars) \<and> hasSendMax vars
                                   then Num (Fin 0) else total_var vars),
                          pushTransaction = (case field raw ''push'' of Bool b \<Rightarrow> b | v \<Rightarrow> False)\<rparr>\<rparr>)
           | v \<Rightarrow> Inl (Error ''Outputs is not an Array'')))"

section \<open>The session: accounts, composed transactions, messages\<close>

text \<open>
  \<^verbatim>\<open>Account\<close> (account/Account, not part of this file): the fields that
  \<^verbatim>\<open>simpleAccount\<close> reads, \<^verbatim>\<open>id\<close> (written \<open>account_id\<close>, as \<open>id\<close> is a constant
  of HOL), \<^verbatim>\<open>coinInfo\<close> and \<^verbatim>\<open>info\<close>. \<open>info\<close> is absent until discovery has
  loaded the account; of \<^verbatim>\<open>info.transactions\<close> only the length is read.
\<close>

record account_info =
  balance :: int
  transactions_length :: nat

record account =
  account_id :: int
  account_coinInfo :: coin_info
  info :: "account_info option"

record simple_account =
  simple_id :: int
  label :: string
  simple_segwit :: bool
  discovered :: bool
  simple_balance :: int
  fresh :: bool

definition simpleAccount :: "account \<Rightarrow> simple_account" where
  "simpleAccount a =
    \<lparr>simple_id = account_id a,
     label = ''Account #'' @ number_to_string (Fin (account_id a + 1)),
     simple_segwit = segwit (account_coinInfo a),
     discovered = (info a \<noteq> None),
     simple_balance = (case info a of Some i \<Rightarrow> balance i | None \<Rightarrow> - 1),
     fresh = (case info a of Some i \<Rightarrow> transactions_length i < 1 | None \<Rightarrow> False)\<rparr>"

text \<open>
  \<^verbatim>\<open>BuildTxResult\<close> (hd-wallet, imported as a type only): a result of type
  \<^verbatim>\<open>'error'\<close> with its error string, of type \<^verbatim>\<open>'nonfinal'\<close>, or of type
  \<^verbatim>\<open>'final'\<close> with the transaction to sign. Of the transaction only the inputs
  are read (the previous transactions they refer to).
\<close>

record tx_numbers =
  totalSpent :: int
  fee :: int
  feePerByte :: int
  bytes :: int

record transaction =
  inputs :: "string list"

datatype build_tx_result =
    ErrorResult string
  | NonfinalResult tx_numbers
  | FinalResult tx_numbers transaction

fun is_final :: "build_tx_result \<Rightarrow> bool" where
  "is_final (FinalResult n t) = True"
| "is_final r = False"

text \<open>\<^verbatim>\<open>tx.fee\<close> and \<^verbatim>\<open>tx.totalSpent\<close>: \<^verbatim>\<open>undefined\<close> on a result of type \<^verbatim>\<open>'error'\<close>.\<close>

fun fee_of :: "build_tx_result \<Rightarrow> jsval" where
  "fee_of (ErrorResult e) = Undefined"
| "fee_of (NonfinalResult n) = Num (Fin (fee n))"
| "fee_of (FinalResult n t) = Num (Fin (fee n))"

fun totalSpent_of :: "build_tx_result \<Rightarrow> jsval" where
  "totalSpent_of (ErrorResult e) = Undefined"
| "totalSpent_of (NonfinalResult n) = Num (Fin (totalSpent n))"
| "totalSpent_of (FinalResult n t) = Num (Fin (totalSpent n))"

text \<open>\<^verbatim>\<open>FeeLevel\<close> (tx/fees, imported as a type only): only its name is read here.\<close>

record fee_level =
  level_name :: string

text \<open>\<^verbatim>\<open>SimpleBuildTxResult\<close>, the object posted to the popup; \<open>None\<close> is an absent field.\<close>

record simple_tx =
  simple_name :: string
  minutes :: int
  simple_fee :: int
  simple_bytes :: "int option"
  simple_feePerByte :: "int option"

fun simpleTxResult :: "fee_level \<Rightarrow> int \<Rightarrow> build_tx_result \<Rightarrow> simple_tx" where
  "simpleTxResult level mins (FinalResult n t) =
    \<lparr>simple_name = level_name level, minutes = mins, simple_fee = fee n,
     simple_bytes = Some (bytes n), simple_feePerByte = Some (feePerByte n)\<rparr>"
| "simpleTxResult level mins tx =
    \<lparr>simple_name = level_name level, minutes = mins, simple_fee = 0,
     simple_bytes = None, simple_feePerByte = None\<rparr>"

text \<open>
  The messages posted to the popup, \<^verbatim>\<open>new UiMessage(type, payload)\<close>. Every payload
  with a \<^verbatim>\<open>coinInfo\<close> carries the one of the request, which is left out. The flag of
  \<open>SELECT_ACCOUNT\<close> is \<^verbatim>\<open>complete\<close> (absent is false).
\<close>

datatype ui_message =
    SET_OPERATION string
  | SELECT_ACCOUNT "simple_account list" bool
  | INSUFFICIENT_FUNDS
  | SELECT_FEE "simple_tx list"
  | UPDATE_CUSTOM_FEE simple_tx

text \<open>
  The responses of the popup. The constants \<^verbatim>\<open>UI.RECEIVE_ACCOUNT\<close>,
  \<^verbatim>\<open>UI.RECEIVE_FEE\<close> and \<^verbatim>\<open>UI.CHANGE_ACCOUNT\<close> (constants/ui) are the three
  events the cycle handles; \<open>OTHER_EVENT\<close> is any other event, with its name.
\<close>

datatype ui_event = RECEIVE_ACCOUNT | RECEIVE_FEE | CHANGE_ACCOUNT | OTHER_EVENT string

record ui_response =
  event :: ui_event
  data :: jsval

text \<open>
  What reaches the session while \<^verbatim>\<open>composingCycle\<close> awaits the UI promise: a
  response of the popup, or a callback of the account discovery (\<^verbatim>\<open>onError\<close> rejects
  the UI promise).
\<close>

datatype incoming =
    UiResponse ui_response
  | OnStart account "account list"
  | OnUpdate account "account list"
  | OnComplete "account list"
  | OnError thrown

text \<open>
  The calls that leave the session, in the order they are made: the trace of a run.
  \<open>Discover None\<close> is the first discovery (with the backend), \<open>Discover (Some as)\<close>
  a discovery resumed from the accounts \<open>as\<close>.
\<close>

datatype effect =
    PostMessage ui_message
  | CreateBackend string
  | Discover "account list option"
  | StopDiscovering
  | ResolveAfter nat
  | NewComposer "account option"
  | ComposeAllLevels
  | Compose jsnum
  | GetReferencedTx "string list"
  | SignTx "build_tx_result option" "string list" jsnum
  | SendTransactionHex string
  | Dispose

text \<open>
  Modelled from the spec: the class \<^verbatim>\<open>TransactionComposer\<close> (tx/TransactionComposer)
  is not part of this file. A composer holds the account it was made for and the
  array \<^verbatim>\<open>composed\<close> of the build results of the account selection, one array that
  is replaced as a whole by \<^verbatim>\<open>composeAllLevels\<close> and overwritten in place by this
  file. \<^verbatim>\<open>composed[composed.length - 1] = tx\<close> on an empty array writes the property
  \<^verbatim>\<open>-1\<close> and no element; \<open>composed_minus1\<close> is that property.
\<close>

record composer =
  composer_account :: "account option"
  composed :: "build_tx_result list"
  composed_minus1 :: "build_tx_result option"

text \<open>The variables that the closures of \<^verbatim>\<open>method\<close> share, and the trace.\<close>

record session =
  accounts :: "account list"
  discoveryCompleted :: bool
  selectedAccount :: "account option"
  txComposer :: "composer option"
  trace :: "effect list"

text \<open>
  The collaborators of \<^verbatim>\<open>method\<close>. A call that can reject yields \<open>Inl\<close> (or
  \<open>Some\<close>) of what it throws. The methods of the composer take the account and the
  outputs it was constructed with. \<open>composeAllLevels_shared\<close> says whether the
  array that \<^verbatim>\<open>composeAllLevels\<close> resolves to is the composer's own \<^verbatim>\<open>composed\<close>
  (then a later write to \<^verbatim>\<open>composed\<close> is seen through \<^verbatim>\<open>txs\<close>) or a copy.
  \<open>sendTransactionHex\<close> rejects with an error whose message is the \<open>Inl\<close>.
\<close>

record method_env =
  formatAmount :: "jsval \<Rightarrow> coin_info \<Rightarrow> string"
  createBackend :: "string \<Rightarrow> thrown option"
  feeLevels :: "fee_level list"
  customFeeLevel :: fee_level
  init :: "account option \<Rightarrow> output list \<Rightarrow> thrown option"
  composeAllLevels :: "account option \<Rightarrow> output list \<Rightarrow> thrown + build_tx_result list"
  composeAllLevels_shared :: bool
  compose :: "account option \<Rightarrow> output list \<Rightarrow> jsnum \<Rightarrow> build_tx_result"
  getEstimatedTime :: "jsval \<Rightarrow> int"
  getReferencedTx :: "string list \<Rightarrow> thrown + string list"
  signTx :: "build_tx_result option \<Rightarrow> string list \<Rightarrow> coin_info \<Rightarrow> jsnum \<Rightarrow> thrown + serialized"
  sendTransactionHex :: "string \<Rightarrow> string + string"

text \<open>The result of an asynchronous function on a finite list of incoming events.\<close>

datatype 'a outcome = Returned 'a | Threw thrown | Pending

definition emit :: "session \<Rightarrow> effect \<Rightarrow> session" where
  "emit s e = s\<lparr>trace := trace s @ [e]\<rparr>"

definition postMessage :: "session \<Rightarrow> ui_message \<Rightarrow> session" where
  "postMessage s m = emit s (PostMessage m)"

text \<open>Reading an array at a number: \<^verbatim>\<open>undefined\<close> outside of its elements.\<close>

definition array_get :: "'a list \<Rightarrow> jsnum \<Rightarrow> 'a option" where
  "array_get xs i =
    (case i of
      NaN \<Rightarrow> None
    | Fin k \<Rightarrow> if 0 \<le> k \<and> k < int (length xs) then Some (xs ! nat k) else None)"

definition composed_get :: "composer \<Rightarrow> jsnum \<Rightarrow> build_tx_result option" where
  "composed_get c i = (if i = Fin (- 1) then composed_minus1 c else array_get (composed c) i)"

text \<open>\<^verbatim>\<open>txComposer.composed[txComposer.composed.length - 1] = tx\<close>.\<close>

definition set_last_composed :: "composer \<Rightarrow> build_tx_result \<Rightarrow> composer" where
  "set_last_composed c tx =
    (if composed c = [] then c\<lparr>composed_minus1 := Some tx\<rparr>
     else c\<lparr>composed := (composed c)[length (composed c) - 1 := tx]\<rparr>)"

section \<open>The workflow of \<^verbatim>\<open>method\<close>\<close>

subsection \<open>Discovery callbacks\<close>

definition onStart :: "session \<Rightarrow> account \<Rightarrow> account list \<Rightarrow> session" where
  "onStart s newAccount allAccounts =
    postMessage s (SELECT_ACCOUNT (map simpleAccount allAccounts @ [simpleAccount newAccount]) False)"

definition onUpdate :: "session \<Rightarrow> account \<Rightarrow> account list \<Rightarrow> session" where
  "onUpdate s newAccount allAccounts =
    postMessage (s\<lparr>accounts := allAccounts\<rparr>) (SELECT_ACCOUNT (map simpleAccount allAccounts) False)"

definition onComplete :: "session \<Rightarrow> account list \<Rightarrow> session" where
  "onComplete s allAccounts =
    postMessage (s\<lparr>discoveryCompleted := True\<rparr>) (SELECT_ACCOUNT (map simpleAccount allAccounts) True)"

text \<open>\<^verbatim>\<open>restoreDiscovery\<close>; \<^verbatim>\<open>input.total === 0\<close> holds of the number zero only.\<close>

definition restoreDiscovery :: "input \<Rightarrow> session \<Rightarrow> session" where
  "restoreDiscovery inp s =
    (let s1 = (if total' inp = Num (Fin 0) then postMessage s (SET_OPERATION ''Payment request'') else s)
     in if discoveryCompleted s1 then onComplete s1 (accounts s1)
        else emit s1 (Discover (Some (accounts s1))))"

definition showInsufficientFundsView :: "input \<Rightarrow> session \<Rightarrow> session" where
  "showInsufficientFundsView inp s =
    restoreDiscovery inp (emit (postMessage s INSUFFICIENT_FUNDS) (ResolveAfter 2000))"

subsection \<open>Account selection\<close>

text \<open>
  The \<^verbatim>\<open>forEach\<close> over the composed transactions: \<^verbatim>\<open>return\<close> ends one round only,
  the \<^verbatim>\<open>throw\<close> ends the loop and the function.
\<close>

fun check_valid :: "build_tx_result list \<Rightarrow> bool \<Rightarrow> thrown + bool" where
  "check_valid [] valid = Inr valid"
| "check_valid (FinalResult n t # ts) valid = check_valid ts True"
| "check_valid (ErrorResult e # ts) valid =
    (if e = ''TWO-SEND-MAX'' then Inl (Error ''Double send max!'') else check_valid ts valid)"
| "check_valid (NonfinalResult n # ts) valid = check_valid ts valid"

text \<open>
  \<^verbatim>\<open>txs[i]\<close> after \<^verbatim>\<open>composeAllLevels\<close>: the composer's array when it is shared, the
  array that was returned otherwise.
\<close>

definition txs_get :: "method_env \<Rightarrow> build_tx_result list \<Rightarrow> session \<Rightarrow> jsnum \<Rightarrow> build_tx_result option" where
  "txs_get env txs s i =
    (if composeAllLevels_shared env
     then (case txComposer s of None \<Rightarrow> None | Some c \<Rightarrow> composed_get c i)
     else array_get txs i)"

text \<open>
  The loop over \<^verbatim>\<open>txComposer.feeLevels.entries()\<close> that builds the list of the fee
  view; \<^verbatim>\<open>txs[index].fee\<close> is a \<^verbatim>\<open>TypeError\<close> where \<^verbatim>\<open>txs[index]\<close> is
  \<^verbatim>\<open>undefined\<close>.
\<close>

fun fee_list :: "method_env \<Rightarrow> (jsnum \<Rightarrow> build_tx_result option) \<Rightarrow> (nat \<times> fee_level) list
    \<Rightarrow> simple_tx list \<Rightarrow> thrown + simple_tx list" where
  "fee_list env txs [] list = Inr list"
| "fee_list env txs ((index, level) # rest) list =
    (case txs (Fin (int index)) of
      None \<Rightarrow> Inl TypeError
    | Some tx \<Rightarrow>
        fee_list env txs rest (list @ [simpleTxResult level (getEstimatedTime env (fee_of tx)) tx]))"

text \<open>
  The end of \<^verbatim>\<open>onAccountSelection\<close>, from the update of the operation label to the
  message \<open>SELECT_FEE\<close>. \<open>txs\<close> is the array that \<^verbatim>\<open>composeAllLevels\<close> returned.
\<close>

definition show_fee_view :: "method_env \<Rightarrow> input \<Rightarrow> build_tx_result list \<Rightarrow> session \<Rightarrow> thrown option \<times> session" where
  "show_fee_view env inp txs s =
    (case (if total' inp = Num (Fin 0)
           then (case txs_get env txs s (Fin (int (length txs) - 1)) of
                   None \<Rightarrow> Inl TypeError
                 | Some tx \<Rightarrow>
                     Inr (postMessage s
                       (SET_OPERATION (''Send '' @ formatAmount env (totalSpent_of tx) (coinInfo inp)))))
           else Inr s) of
      Inl e \<Rightarrow> (Some e, s)
    | Inr s1 \<Rightarrow>
        (case fee_list env (txs_get env txs s1) (enumerate 0 (feeLevels env)) [] of
          Inl e \<Rightarrow> (Some e, s1)
        | Inr list \<Rightarrow> (None, postMessage s1 (SELECT_FEE list))))"

text \<open>
  \<^verbatim>\<open>onAccountSelection\<close>. The result is what the function throws, if anything, and
  the session after it. A new composer has nothing composed; \<^verbatim>\<open>composeAllLevels\<close>
  fills \<^verbatim>\<open>composed\<close> with what it returns.
\<close>

definition onAccountSelection :: "method_env \<Rightarrow> input \<Rightarrow> session \<Rightarrow> jsnum \<Rightarrow> thrown option \<times> session" where
  "onAccountSelection env inp s0 i =
    (let sel = array_get (accounts s0) i;
         s1 = emit (s0\<lparr>selectedAccount := sel,
                       txComposer := Some \<lparr>composer_account = sel, composed = [], composed_minus1 = None\<rparr>\<rparr>)
                (NewComposer sel)
     in case init env sel (outputs inp) of
          Some e \<Rightarrow> (Some e, s1)
        | None \<Rightarrow>
            (case composeAllLevels env sel (outputs inp) of
              Inl e \<Rightarrow> (Some e, emit s1 ComposeAllLevels)
            | Inr txs \<Rightarrow>
                (let c = \<lparr>composer_account = sel, composed = txs, composed_minus1 = None\<rparr>;
                     s2 = (emit s1 ComposeAllLevels)\<lparr>txComposer := Some c\<rparr>
                 in case check_valid txs False of
                      Inl e \<Rightarrow> (Some e, s2)
                    | Inr valid \<Rightarrow>
                        if \<not> valid then
                          (let tx = compose env sel (outputs inp) (Fin (minFee (coinInfo inp)));
                               s3 = emit s2 (Compose (Fin (minFee (coinInfo inp))))
                           in if is_final tx
                              then show_fee_view env inp txs (s3\<lparr>txComposer := Some (set_last_composed c tx)\<rparr>)
                              else (None, showInsufficientFundsView inp s3))
                        else show_fee_view env inp txs s2)))"

subsection \<open>The cycle of interactions with the user\<close>

text \<open>
  \<^verbatim>\<open>composingCycle\<close> on the events that arrive while it awaits. Each \<^verbatim>\<open>await\<close> of the
  UI promise takes the next response; the callbacks of the discovery run in between.
  With no event left the cycle is still waiting (\<open>Pending\<close>). A fee response whose
  \<^verbatim>\<open>type\<close> is neither \<^verbatim>\<open>'custom'\<close> nor \<^verbatim>\<open>'fee'\<close> falls off the end of the function,
  which then returns \<^verbatim>\<open>undefined\<close> (\<open>Returned None\<close>).
\<close>

fun composingCycle :: "method_env \<Rightarrow> input \<Rightarrow> incoming list \<Rightarrow> session
    \<Rightarrow> build_tx_result option outcome \<times> session" where
  "composingCycle env inp [] s = (Pending, s)"
| "composingCycle env inp (OnStart a allAccounts # rest) s =
    composingCycle env inp rest (onStart s a allAccounts)"
| "composingCycle env inp (OnUpdate a allAccounts # rest) s =
    composingCycle env inp rest (onUpdate s a allAccounts)"
| "composingCycle env inp (OnComplete allAccounts # rest) s =
    composingCycle env inp rest (onComplete s allAccounts)"
| "composingCycle env inp (OnError e # rest) s = (Threw e, s)"
| "composingCycle env inp (UiResponse uiResponse # rest) s =
    (if event uiResponse \<noteq> RECEIVE_ACCOUNT \<and> event uiResponse \<noteq> RECEIVE_FEE
        \<and> event uiResponse \<noteq> CHANGE_ACCOUNT
     then composingCycle env inp rest s
     else if event uiResponse = RECEIVE_ACCOUNT then
       (case onAccountSelection env inp (emit s StopDiscovering) (parseInt (data uiResponse)) of
         (Some e, s1) \<Rightarrow> (Threw e, s1)
       | (None, s1) \<Rightarrow> composingCycle env inp rest s1)
     else if event uiResponse = CHANGE_ACCOUNT then
       composingCycle env inp rest (restoreDiscovery inp s)
     else
       (case get_prop (data uiResponse) ''type'' of
         None \<Rightarrow> (Threw TypeError, s)
       | Some ty \<Rightarrow>
           if ty = Str ''custom'' then
             (case txComposer s of
               None \<Rightarrow> (Threw (Error ''TransactionComposer not initialized.''), s)
             | Some c \<Rightarrow>
                 (let fee_value = parseInt (prop_of (data uiResponse) ''value'');
                      tx = compose env (composer_account c) (outputs inp) fee_value;
                      s1 = (emit s (Compose fee_value))\<lparr>txComposer := Some (set_last_composed c tx)\<rparr>;
                      simple = simpleTxResult (customFeeLevel env) (getEstimatedTime env (fee_of tx)) tx
                  in composingCycle env inp rest (postMessage s1 (UPDATE_CUSTOM_FEE simple))))
           else if ty = Str ''fee'' then
             (case txComposer s of
               None \<Rightarrow> (Threw (Error ''TransactionComposer not initialized.''), s)
             | Some c \<Rightarrow> (Returned (composed_get c (parseInt (prop_of (data uiResponse) ''value''))), s))
           else (Returned None, s)))"

subsection \<open>Signing and broadcast\<close>

text \<open>
  \<^verbatim>\<open>tx.transaction.inputs\<close> for the result of the cycle: a \<^verbatim>\<open>TypeError\<close> unless the
  result is of type \<^verbatim>\<open>'final'\<close>.
\<close>

fun transaction_inputs :: "build_tx_result option \<Rightarrow> thrown + string list" where
  "transaction_inputs (Some (FinalResult n t)) = Inr (inputs t)"
| "transaction_inputs tx = Inl TypeError"

text \<open>
  The end of \<^verbatim>\<open>method\<close>, once \<^verbatim>\<open>composingCycle\<close> has returned \<open>tx\<close>: the referenced
  transactions, the signature of the device, the broadcast when
  \<^verbatim>\<open>input.pushTransaction\<close> is set, \<^verbatim>\<open>backend.dispose()\<close> and the result.
\<close>

definition sign_and_push :: "method_env \<Rightarrow> input \<Rightarrow> build_tx_result option \<Rightarrow> session
    \<Rightarrow> signed_result outcome \<times> session" where
  "sign_and_push env inp tx s =
    (case (case txComposer s of
             None \<Rightarrow> Inr ([], s)
           | Some c \<Rightarrow>
               (case transaction_inputs tx of
                 Inl e \<Rightarrow> Inl (e, s)
               | Inr ins \<Rightarrow>
                   (case getReferencedTx env ins of
                     Inl e \<Rightarrow> Inl (e, emit s (GetReferencedTx ins))
                   | Inr refs \<Rightarrow> Inr (refs, emit s (GetReferencedTx ins))))) of
      Inl (e, s1) \<Rightarrow> (Threw e, s1)
    | Inr (refTx, s1) \<Rightarrow>
        (let s2 = emit s1 (SignTx tx refTx (locktime inp))
         in case signTx env tx refTx (coinInfo inp) (locktime inp) of
              Inl e \<Rightarrow> (Threw e, s2)
            | Inr signedtx \<Rightarrow>
                if pushTransaction inp then
                  (let s3 = emit s2 (SendTransactionHex (serialized_tx signedtx))
                   in case sendTransactionHex env (serialized_tx signedtx) of
                        Inl message \<Rightarrow>
                          (Threw (PushFailure
                             \<lparr>signatures = signatures signedtx, serialized_tx = serialized_tx signedtx,
                              custom = True, error = message\<rparr>), s3)
                      | Inr txId \<Rightarrow>
                          (Returned
                             \<lparr>signatures = signatures signedtx, serialized_tx = serialized_tx signedtx,
                              txid = Some txId\<rparr>, emit s3 Dispose))
                else
                  (Returned
                     \<lparr>signatures = signatures signedtx, serialized_tx = serialized_tx signedtx,
                      txid = None\<rparr>, emit s2 Dispose)))"

subsection \<open>\<^verbatim>\<open>method\<close>\<close>

text \<open>
  The start of \<^verbatim>\<open>method\<close>, from the moment the popup promise has resolved to the
  call of \<^verbatim>\<open>createBackend\<close>: the operation label and the empty account view.
\<close>

definition method_begin :: "method_env \<Rightarrow> input \<Rightarrow> session" where
  "method_begin env inp =
    (let s0 = \<lparr>accounts = [], discoveryCompleted = False, selectedAccount = None,
               txComposer = None, trace = []\<rparr>;
         s1 = (if js_gt_zero (total' inp)
               then postMessage s0 (SET_OPERATION (''Send '' @ formatAmount env (total' inp) (coinInfo inp)))
               else s0)
     in emit (postMessage s1 (SELECT_ACCOUNT [] False)) (CreateBackend (name (coinInfo inp))))"

text \<open>
  \<^verbatim>\<open>method\<close>: the start, the backend, the first discovery, the cycle, and the
  signature.
\<close>

definition "method" :: "method_env \<Rightarrow> input \<Rightarrow> incoming list \<Rightarrow> signed_result outcome \<times> session" where
  "method env inp events =
    (case createBackend env (name (coinInfo inp)) of
      Some e \<Rightarrow> (Threw e, method_begin env inp)
    | None \<Rightarrow>
        (case composingCycle env inp events (emit (method_begin env inp) (Discover None)) of
          (Returned tx, s) \<Rightarrow> sign_and_push env inp tx s
        | (Threw e, s) \<Rightarrow> (Threw e, s)
        | (Pending, s) \<Rightarrow> (Pending, s)))"

section \<open>Auxiliary notions and example data\<close>

text \<open>
  The messages of the errors that the loop over the outputs throws start with
  \<open>O\<close> or \<open>I\<close>; this separates them from the errors of the coin and of the
  locktime.
\<close>

fun starts_O_or_I :: "thrown \<Rightarrow> bool" where
  "starts_O_or_I (Error m) = (take 1 m = ''O'' \<or> take 1 m = ''I'')"
| "starts_O_or_I TypeError = True"
| "starts_O_or_I (PushFailure f) = False"

text \<open>The number of calls of \<^verbatim>\<open>txComposer.compose\<close> in a trace.\<close>

definition compose_calls :: "effect list \<Rightarrow> nat" where
  "compose_calls t = length (filter (\<lambda>e. case e of Compose r \<Rightarrow> True | _ \<Rightarrow> False) t)"

text \<open>
  A concrete environment for the validator: one coin, three addresses (two of the
  coin's versions, one of another network) and a \<^verbatim>\<open>stringToHex\<close> that writes two
  hexadecimal digits for every character.
\<close>

definition hex_digit :: "nat \<Rightarrow> char" where
  "hex_digit d = ''0123456789abcdef'' ! (d mod 16)"

definition example_stringToHex :: "string \<Rightarrow> string" where
  "example_stringToHex s =
    concat (map (\<lambda>c. [hex_digit (of_char c div 16), hex_digit (of_char c mod 16)]) s)"

definition bitcoin :: coin_info where
  "bitcoin = \<lparr>name = ''Bitcoin'', network = \<lparr>pubKeyHash = 0, scriptHash = 5\<rparr>,
     segwit = True, minFee = 1\<rparr>"

definition example_env :: params_env where
  "example_env = \<lparr>
     getCoinInfoByCurrency = (\<lambda>c. if c = ''Bitcoin'' \<or> c = ''btc'' then Some bitcoin else None),
     fromBase58Check = (\<lambda>a.
       if a = ''1BitcoinEaterAddressDontSendf59kuE'' then Some 0
       else if a = ''3P14159f73E4gFr7JterCCQh9QjiTjiZrG'' then Some 5
       else if a = ''LKDxGDJq5a3NqxxfFHvFcTMELZWcpyuBsu'' then Some 48
       else None),
     stringToHex = example_stringToHex,
     checkPermissions = (\<lambda>ps. ps)\<rparr>"

text \<open>
  A concrete environment for \<^verbatim>\<open>method\<close>. Account 0 can pay at every fee, account 1
  only at a fee of at most 2 per byte, account 2 not at all; for account 3 the
  composer reports two send-max outputs. The device signs; the backend refuses the
  broadcast.
\<close>

definition example_accounts :: "account list" where
  "example_accounts =
    [\<lparr>account_id = 0, account_coinInfo = bitcoin,
      info = Some \<lparr>balance = 100000, transactions_length = 3\<rparr>\<rparr>,
     \<lparr>account_id = 1, account_coinInfo = bitcoin,
      info = Some \<lparr>balance = 50300, transactions_length = 1\<rparr>\<rparr>,
     \<lparr>account_id = 2, account_coinInfo = bitcoin,
      info = Some \<lparr>balance = 0, transactions_length = 0\<rparr>\<rparr>,
     \<lparr>account_id = 3, account_coinInfo = bitcoin,
      info = Some \<lparr>balance = 7000, transactions_length = 2\<rparr>\<rparr>]"

definition example_final :: "int \<Rightarrow> build_tx_result" where
  "example_final rate =
    FinalResult \<lparr>totalSpent = 50000, fee = 200 * rate, feePerByte = rate, bytes = 200\<rparr>
      \<lparr>inputs = [''prev-tx'']\<rparr>"

definition example_compose :: "account option \<Rightarrow> output list \<Rightarrow> jsnum \<Rightarrow> build_tx_result" where
  "example_compose a outs rate =
    (case (a, rate) of
      (Some acc, Fin r) \<Rightarrow>
        if account_id acc = 0 \<and> 0 < r then example_final r
        else if account_id acc = 1 \<and> 0 < r \<and> r \<le> 2 then example_final r
        else ErrorResult ''NOT-ENOUGH-FUNDS''
    | _ \<Rightarrow> ErrorResult ''NOT-ENOUGH-FUNDS'')"

definition example_method_env :: method_env where
  "example_method_env = \<lparr>
     formatAmount = (\<lambda>v ci. to_string v @ '' sat''),
     createBackend = (\<lambda>n. None),
     feeLevels = [\<lparr>level_name = ''normal''\<rparr>, \<lparr>level_name = ''custom''\<rparr>],
     customFeeLevel = \<lparr>level_name = ''custom''\<rparr>,
     init = (\<lambda>a outs. None),
     composeAllLevels = (\<lambda>a outs.
       if map_option account_id a = Some 3
       then Inr [ErrorResult ''TWO-SEND-MAX'', ErrorResult ''TWO-SEND-MAX'']
       else Inr [example_compose a outs (Fin 10), example_compose a outs (Fin 5)]),
     composeAllLevels_shared = True,
     compose = example_compose,
     getEstimatedTime = (\<lambda>fee. 10),
     getReferencedTx = (\<lambda>ins. Inr ins),
     signTx = (\<lambda>tx refs ci lt. Inr \<lparr>signatures = [''3045''], serialized_tx = ''0100''\<rparr>),
     sendTransactionHex = (\<lambda>hex. Inl ''Server error'')\<rparr>"

definition example_input :: input where
  "example_input =
    \<lparr>outputs = [Complete ''3P14159f73E4gFr7JterCCQh9QjiTjiZrG'' (Fin 50000)],
     locktime = NaN, coinInfo = bitcoin, total' = Num (Fin 50000), pushTransaction = True\<rparr>"

text \<open>The session in which the discovery has reported the four accounts.\<close>

definition example_session :: session where
  "example_session =
    onUpdate (emit (method_begin example_method_env example_input) (Discover None))
      (example_accounts ! 3) example_accounts"

section \<open>Properties of the validator\<close>

subsection \<open>The paths through \<^verbatim>\<open>params\<close>\<close>

lemma opreturn_data_error:
  "opreturn_data env out = Inl e \<Longrightarrow> starts_O_or_I e"
  unfolding opreturn_data_def Let_def
  by (cases "prop_of out ''data''") (auto split: if_splits)

lemma complete_output_error:
  "complete_output env ci vars out = Inl e \<Longrightarrow> starts_O_or_I e"
  unfolding complete_output_def
  by (cases "prop_of out ''address''") (auto split: option.splits if_splits)

lemma parse_output_error:
  assumes "parse_output env ci n vars out = Inl e"
  shows "starts_O_or_I e"
proof (cases "get_prop out ''type''")
  case None
  with assms show ?thesis by (simp add: parse_output_def)
next
  case (Some ty)
  show ?thesis
  proof (cases "ty = Str ''opreturn''")
    case True
    with Some assms show ?thesis
      by (auto simp: parse_output_def split: if_splits sum.splits dest: opreturn_data_error)
  next
    case False
    note not_op = this
    show ?thesis
    proof (cases "ty = Str ''send-max''")
      case True
      with Some not_op assms show ?thesis
        by (auto simp: parse_output_def split: if_splits)
    next
      case False
      with Some not_op assms have "complete_output env ci vars out = Inl e"
        by (simp add: parse_output_def)
      then show ?thesis by (rule complete_output_error)
    qed
  qed
qed

lemma parse_outputs_error:
  "parse_outputs env ci n outs vars = Inl e \<Longrightarrow> starts_O_or_I e"
proof (induction outs arbitrary: vars)
  case Nil
  then show ?case by simp
next
  case (Cons out rest)
  show ?case
  proof (cases "parse_output env ci n vars out")
    case (Inl e')
    with Cons.prems have "e' = e" by simp
    with Inl show ?thesis using parse_output_error by blast
  next
    case (Inr vars')
    with Cons.prems have "parse_outputs env ci n rest vars' = Inl e" by simp
    then show ?thesis by (rule Cons.IH)
  qed
qed

lemma field_Cons: "field ((k, v) # obj) k' = (if k = k' then v else field obj k')"
  by (simp add: field_def)

lemma params_unknown_coin:
  "getCoinInfoByCurrency env (case field raw ''coin'' of Str c \<Rightarrow> c | v \<Rightarrow> ''Bitcoin'') = None \<Longrightarrow>
   params env raw = Inl (Error (''Coin '' @ to_string (field raw ''coin'') @ '' not found''))"
  by (simp add: params_def)

lemma params_bad_locktime:
  "getCoinInfoByCurrency env (case field raw ''coin'' of Str c \<Rightarrow> c | v \<Rightarrow> ''Bitcoin'') = Some ci \<Longrightarrow>
   truthy (field raw ''locktime'') \<Longrightarrow> isNaN (parseInt (field raw ''locktime'')) \<Longrightarrow>
   params env raw = Inl (Error ''Locktime is not a number'')"
  by (simp add: params_def)

lemma params_not_array:
  "getCoinInfoByCurrency env (case field raw ''coin'' of Str c \<Rightarrow> c | v \<Rightarrow> ''Bitcoin'') = Some ci \<Longrightarrow>
   \<not> (truthy (field raw ''locktime'') \<and> isNaN (parseInt (field raw ''locktime''))) \<Longrightarrow>
   \<forall>outs. field raw ''outputs'' \<noteq> Arr outs \<Longrightarrow>
   params env raw = Inl (Error ''Outputs is not an Array'')"
  by (cases "field raw ''outputs''") (auto simp: params_def)

lemma params_outputs_error:
  "getCoinInfoByCurrency env (case field raw ''coin'' of Str c \<Rightarrow> c | v \<Rightarrow> ''Bitcoin'') = Some ci \<Longrightarrow>
   \<not> (truthy (field raw ''locktime'') \<and> isNaN (parseInt (field raw ''locktime''))) \<Longrightarrow>
   field raw ''outputs'' = Arr outs \<Longrightarrow>
   parse_outputs env ci (length outs) outs
     \<lparr>total_var = Num (Fin 0), hasSendMax = False, parsedOutputs = []\<rparr> = Inl e \<Longrightarrow>
   params env raw = Inl e"
  by (auto simp: params_def)

lemma params_accepted:
  "getCoinInfoByCurrency env (case field raw ''coin'' of Str c \<Rightarrow> c | v \<Rightarrow> ''Bitcoin'') = Some ci \<Longrightarrow>
   \<not> (truthy (field raw ''locktime'') \<and> isNaN (parseInt (field raw ''locktime''))) \<Longrightarrow>
   field raw ''outputs'' = Arr outs \<Longrightarrow>
   parse_outputs env ci (length outs) outs
     \<lparr>total_var = Num (Fin 0), hasSendMax = False, parsedOutputs = []\<rparr> = Inr vars \<Longrightarrow>
   params env raw =
     Inr \<lparr>responseID = field raw ''id'', method_name = ''composetx'', useUi = True, useDevice = True,
          requiredFirmware = ''1.5.0'', requiredPermissions = checkPermissions env [''write''],
          input = \<lparr>outputs = parsedOutputs vars,
                    locktime = parseInt (field raw ''locktime''),
                    coinInfo = ci,
                    total' = (if js_gt_zero (total_var vars) \<and> hasSendMax vars
                             then Num (Fin 0) else total_var vars),
                    pushTransaction = (case field raw ''push'' of Bool b \<Rightarrow> b | v \<Rightarrow> False)\<rparr>\<rparr>"
  by (auto simp: params_def)

lemma params_known_coin:
  assumes ci: "getCoinInfoByCurrency env (case field raw ''coin'' of Str c \<Rightarrow> c | v \<Rightarrow> ''Bitcoin'') = Some ci"
  shows "(\<exists>e. params env raw = Inl e \<and> (e = Error ''Locktime is not a number'' \<or> starts_O_or_I e))
       \<or> (\<exists>mp. params env raw = Inr mp \<and> coinInfo (input mp) = ci)"
proof (cases "truthy (field raw ''locktime'') \<and> isNaN (parseInt (field raw ''locktime''))")
  case True
  then show ?thesis using params_bad_locktime [OF ci] by simp
next
  case lt: False
  show ?thesis
  proof (cases "\<exists>outs. field raw ''outputs'' = Arr outs")
    case False
    then have "params env raw = Inl (Error ''Outputs is not an Array'')"
      using params_not_array [OF ci lt] by simp
    then show ?thesis by simp
  next
    case True
    then obtain outs where outs: "field raw ''outputs'' = Arr outs" ..
    show ?thesis
    proof (cases "parse_outputs env ci (length outs) outs
        \<lparr>total_var = Num (Fin 0), hasSendMax = False, parsedOutputs = []\<rparr>")
      case (Inl e)
      then have "params env raw = Inl e" by (rule params_outputs_error [OF ci lt outs])
      moreover have "starts_O_or_I e" using Inl by (rule parse_outputs_error)
      ultimately show ?thesis by simp
    next
      case (Inr vars)
      show ?thesis using params_accepted [OF ci lt outs Inr] by simp
    qed
  qed
qed

lemma params_coin_error_iff:
  "(\<exists>x. params env raw = Inl (Error (''Coin '' @ x)))
   \<longleftrightarrow> getCoinInfoByCurrency env (case field raw ''coin'' of Str c \<Rightarrow> c | v \<Rightarrow> ''Bitcoin'') = None"
proof (cases "getCoinInfoByCurrency env (case field raw ''coin'' of Str c \<Rightarrow> c | v \<Rightarrow> ''Bitcoin'')")
  case None
  then show ?thesis using params_unknown_coin [OF None] by simp
next
  case (Some ci)
  have "params env raw \<noteq> Inl (Error (''Coin '' @ x))" for x
    using params_known_coin [OF Some] by auto
  with Some show ?thesis by simp
qed

lemma params_Inr_coinInfo:
  assumes "params env raw = Inr mp"
  shows "getCoinInfoByCurrency env (case field raw ''coin'' of Str c \<Rightarrow> c | v \<Rightarrow> ''Bitcoin'')
           = Some (coinInfo (input mp))"
proof (cases "getCoinInfoByCurrency env (case field raw ''coin'' of Str c \<Rightarrow> c | v \<Rightarrow> ''Bitcoin'')")
  case None
  then show ?thesis using params_unknown_coin [OF None] assms by simp
next
  case (Some ci)
  then show ?thesis using params_known_coin [OF Some] assms by auto
qed

lemma not_string_coin_name:
  "\<not> is_string v \<Longrightarrow> (case v of Str c \<Rightarrow> c | v \<Rightarrow> ''Bitcoin'') = ''Bitcoin''"
  by (cases v) simp_all

lemma params_substitute_Bitcoin:
  assumes "\<not> is_string (field raw ''coin'')" and "getCoinInfoByCurrency env ''Bitcoin'' = Some ci"
  shows "params env raw = params env ((''coin'', Str ''Bitcoin'') # raw)"
proof -
  let ?raw = "(''coin'', Str ''Bitcoin'') # raw"
  have same: "field ?raw ''locktime'' = field raw ''locktime''"
    "field ?raw ''outputs'' = field raw ''outputs''"
    "field ?raw ''id'' = field raw ''id''"
    "field ?raw ''push'' = field raw ''push''"
    by (simp_all add: field_Cons)
  have coin: "field ?raw ''coin'' = Str ''Bitcoin''"
    by (simp add: field_Cons)
  show ?thesis
    unfolding params_def same coin using assms by (simp add: not_string_coin_name)
qed

text \<open>
  Claim C9. When the \<^verbatim>\<open>coin\<close> field of the request is absent or not a string, the
  validator looks up the coin \<^verbatim>\<open>Bitcoin\<close> instead. If that coin is unknown it
  throws the coin error (whose message shows the field as it was given); if it is
  known, the request is validated exactly as the same request with
  \<^verbatim>\<open>coin: 'Bitcoin'\<close>, no coin error is thrown, and an accepted request carries the
  parameters of Bitcoin. When the field is a string, the coin error is thrown exactly
  when that name is unknown.
\<close>

theorem coin_defaults_to_Bitcoin:
  "(\<not> is_string (field raw ''coin'') \<longrightarrow>
      (getCoinInfoByCurrency env ''Bitcoin'' = None \<longrightarrow>
         params env raw = Inl (Error (''Coin '' @ to_string (field raw ''coin'') @ '' not found'')))
    \<and> (getCoinInfoByCurrency env ''Bitcoin'' \<noteq> None \<longrightarrow>
         params env raw = params env ((''coin'', Str ''Bitcoin'') # raw)
         \<and> (\<forall>x. params env raw \<noteq> Inl (Error (''Coin '' @ x @ '' not found''))))
    \<and> (\<forall>mp. params env raw = Inr mp \<longrightarrow>
         getCoinInfoByCurrency env ''Bitcoin'' = Some (coinInfo (input mp))))
  \<and> (\<forall>c. field raw ''coin'' = Str c \<longrightarrow>
       ((\<exists>x. params env raw = Inl (Error (''Coin '' @ x @ '' not found'')))
        \<longleftrightarrow> getCoinInfoByCurrency env c = None))"
proof (intro conjI impI allI)
  assume "\<not> is_string (field raw ''coin'')" and "getCoinInfoByCurrency env ''Bitcoin'' = None"
  then show "params env raw = Inl (Error (''Coin '' @ to_string (field raw ''coin'') @ '' not found''))"
    using params_unknown_coin [of env raw] by (simp add: not_string_coin_name)
next
  assume "\<not> is_string (field raw ''coin'')" and "getCoinInfoByCurrency env ''Bitcoin'' \<noteq> None"
  then show "params env raw = params env ((''coin'', Str ''Bitcoin'') # raw)"
    using params_substitute_Bitcoin [of raw env] by auto
next
  fix x
  assume "\<not> is_string (field raw ''coin'')" and "getCoinInfoByCurrency env ''Bitcoin'' \<noteq> None"
  then show "params env raw \<noteq> Inl (Error (''Coin '' @ x @ '' not found''))"
    using params_coin_error_iff [of env raw] by (auto simp: not_string_coin_name)
next
  fix mp
  assume "\<not> is_string (field raw ''coin'')" and "params env raw = Inr mp"
  then show "getCoinInfoByCurrency env ''Bitcoin'' = Some (coinInfo (input mp))"
    using params_Inr_coinInfo [of env raw mp] by (simp add: not_string_coin_name)
next
  fix c
  assume c: "field raw ''coin'' = Str c"
  show "(\<exists>x. params env raw = Inl (Error (''Coin '' @ x @ '' not found'')))
        \<longleftrightarrow> getCoinInfoByCurrency env c = None"
  proof
    assume "\<exists>x. params env raw = Inl (Error (''Coin '' @ x @ '' not found''))"
    then have "\<exists>x. params env raw = Inl (Error (''Coin '' @ x))" by blast
    then show "getCoinInfoByCurrency env c = None"
      using params_coin_error_iff [of env raw] c by simp
  next
    assume "getCoinInfoByCurrency env c = None"
    then have "params env raw = Inl (Error (''Coin '' @ c @ '' not found''))"
      using params_unknown_coin [of env raw] c by simp
    then show "\<exists>x. params env raw = Inl (Error (''Coin '' @ x @ '' not found''))" by blast
  qed
qed

lemma params_InrD:
  assumes "params env raw = Inr mp"
  shows "\<exists>ci outs vars.
      getCoinInfoByCurrency env (case field raw ''coin'' of Str c \<Rightarrow> c | v \<Rightarrow> ''Bitcoin'') = Some ci
    \<and> \<not> (truthy (field raw ''locktime'') \<and> isNaN (parseInt (field raw ''locktime'')))
    \<and> field raw ''outputs'' = Arr outs
    \<and> parse_outputs env ci (length outs) outs
         \<lparr>total_var = Num (Fin 0), hasSendMax = False, parsedOutputs = []\<rparr> = Inr vars
    \<and> outputs (input mp) = parsedOutputs vars
    \<and> locktime (input mp) = parseInt (field raw ''locktime'')
    \<and> coinInfo (input mp) = ci
    \<and> total' (input mp) = (if js_gt_zero (total_var vars) \<and> hasSendMax vars
                             then Num (Fin 0) else total_var vars)"
proof (cases "getCoinInfoByCurrency env (case field raw ''coin'' of Str c \<Rightarrow> c | v \<Rightarrow> ''Bitcoin'')")
  case None
  then show ?thesis using params_unknown_coin [OF None] assms by simp
next
  case ci: (Some ci)
  show ?thesis
  proof (cases "truthy (field raw ''locktime'') \<and> isNaN (parseInt (field raw ''locktime''))")
    case True
    then show ?thesis using params_bad_locktime [OF ci] assms by simp
  next
    case lt: False
    show ?thesis
    proof (cases "\<exists>outs. field raw ''outputs'' = Arr outs")
      case False
      then show ?thesis using params_not_array [OF ci lt] assms by simp
    next
      case True
      then obtain outs where outs: "field raw ''outputs'' = Arr outs" ..
      show ?thesis
      proof (cases "parse_outputs env ci (length outs) outs
          \<lparr>total_var = Num (Fin 0), hasSendMax = False, parsedOutputs = []\<rparr>")
        case (Inl e)
        then show ?thesis using params_outputs_error [OF ci lt outs Inl] assms by simp
      next
        case (Inr vars)
        have "mp = \<lparr>responseID = field raw ''id'', method_name = ''composetx'', useUi = True,
            useDevice = True, requiredFirmware = ''1.5.0'',
            requiredPermissions = checkPermissions env [''write''],
            input = \<lparr>outputs = parsedOutputs vars,
                      locktime = parseInt (field raw ''locktime''),
                      coinInfo = ci,
                      total' = (if js_gt_zero (total_var vars) \<and> hasSendMax vars
                               then Num (Fin 0) else total_var vars),
                      pushTransaction = (case field raw ''push'' of Bool b \<Rightarrow> b | v \<Rightarrow> False)\<rparr>\<rparr>"
          using params_accepted [OF ci lt outs Inr] assms by simp
        then have "outputs (input mp) = parsedOutputs vars
          \<and> locktime (input mp) = parseInt (field raw ''locktime'')
          \<and> coinInfo (input mp) = ci
          \<and> total' (input mp) = (if js_gt_zero (total_var vars) \<and> hasSendMax vars
                             then Num (Fin 0) else total_var vars)"
          by simp
        with ci lt outs Inr show ?thesis by blast
      qed
    qed
  qed
qed

lemma params_locktime_errorD:
  assumes "params env raw = Inl (Error ''Locktime is not a number'')"
  shows "truthy (field raw ''locktime'') \<and> isNaN (parseInt (field raw ''locktime''))"
proof (cases "getCoinInfoByCurrency env (case field raw ''coin'' of Str c \<Rightarrow> c | v \<Rightarrow> ''Bitcoin'')")
  case None
  then show ?thesis using params_unknown_coin [OF None] assms by simp
next
  case ci: (Some ci)
  show ?thesis
  proof (rule ccontr)
    assume lt: "\<not> (truthy (field raw ''locktime'') \<and> isNaN (parseInt (field raw ''locktime'')))"
    show False
    proof (cases "\<exists>outs. field raw ''outputs'' = Arr outs")
      case False
      then show ?thesis using params_not_array [OF ci lt] assms by simp
    next
      case True
      then obtain outs where outs: "field raw ''outputs'' = Arr outs" ..
      show ?thesis
      proof (cases "parse_outputs env ci (length outs) outs
          \<lparr>total_var = Num (Fin 0), hasSendMax = False, parsedOutputs = []\<rparr>")
        case (Inl e)
        then have "params env raw = Inl e" by (rule params_outputs_error [OF ci lt outs])
        moreover have "starts_O_or_I e" using Inl by (rule parse_outputs_error)
        ultimately show ?thesis using assms by auto
      next
        case (Inr vars)
        show ?thesis using params_accepted [OF ci lt outs Inr] assms by simp
      qed
    qed
  qed
qed

lemma parseInt_falsy:
  "\<not> truthy v \<Longrightarrow> parseInt v = (if v = Num (Fin 0) then Fin 0 else NaN)"
proof (cases v)
  case (Num n)
  assume "\<not> truthy v"
  with Num show ?thesis
    by (cases n)
      (simp_all add: parseInt_def parseInt_string_def number_to_string_def show_int_def
        show_digits.simps digit_char_def is_ws_def is_radix_digit_def digit_val_def digits_value_def)
qed (simp_all add: parseInt_def parseInt_string_def is_ws_def is_radix_digit_def digit_val_def)

text \<open>
  Claim C10, as amended. When the \<^verbatim>\<open>locktime\<close> field is absent or falsy, the
  validator does not throw the locktime error, and the locktime of an accepted request
  is \<^verbatim>\<open>parseInt\<close> of the field: \<open>NaN\<close> for every falsy value but the number 0, for
  which it is 0. The locktime error is thrown only for a truthy field whose
  \<^verbatim>\<open>parseInt\<close> is \<open>NaN\<close>.
\<close>

theorem falsy_locktime:
  "(\<not> truthy (field raw ''locktime'') \<longrightarrow>
       params env raw \<noteq> Inl (Error ''Locktime is not a number'')
     \<and> (\<forall>mp. params env raw = Inr mp \<longrightarrow>
          locktime (input mp) = (if field raw ''locktime'' = Num (Fin 0) then Fin 0 else NaN)))
   \<and> (params env raw = Inl (Error ''Locktime is not a number'') \<longrightarrow>
        truthy (field raw ''locktime'') \<and> parseInt (field raw ''locktime'') = NaN)"
proof (intro conjI impI allI)
  assume "\<not> truthy (field raw ''locktime'')"
  then show "params env raw \<noteq> Inl (Error ''Locktime is not a number'')"
    using params_locktime_errorD [of env raw] by blast
next
  fix mp
  assume "\<not> truthy (field raw ''locktime'')" and "params env raw = Inr mp"
  then show "locktime (input mp) = (if field raw ''locktime'' = Num (Fin 0) then Fin 0 else NaN)"
    using params_InrD [of env raw mp] parseInt_falsy [of "field raw ''locktime''"] by auto
next
  assume "params env raw = Inl (Error ''Locktime is not a number'')"
  then show "truthy (field raw ''locktime'')"
    using params_locktime_errorD by blast
next
  assume "params env raw = Inl (Error ''Locktime is not a number'')"
  then show "parseInt (field raw ''locktime'') = NaN"
    using params_locktime_errorD [of env raw] by (simp add: isNaN_def)
qed

lemma parse_outputs_length:
  "parse_outputs env ci n outs vars = Inr vars' \<Longrightarrow>
   length (parsedOutputs vars') = length (parsedOutputs vars) + length outs"
proof (induction outs arbitrary: vars)
  case Nil
  then show ?case by simp
next
  case (Cons out rest)
  from Cons.prems obtain v1 where step: "parse_output env ci n vars out = Inr v1"
    and rest: "parse_outputs env ci n rest v1 = Inr vars'"
    by (auto split: sum.splits)
  have "length (parsedOutputs v1) = length (parsedOutputs vars) + 1"
    using step
    by (auto simp: parse_output_def complete_output_def
        split: option.splits if_splits sum.splits jsval.splits)
  with Cons.IH [OF rest] show ?case by simp
qed

lemma parse_outputs_each:
  "parse_outputs env ci n outs vars = Inr vars' \<Longrightarrow>
   list_all (\<lambda>out. \<exists>v v'. parse_output env ci n v out = Inr v') outs"
proof (induction outs arbitrary: vars)
  case Nil
  then show ?case by simp
next
  case (Cons out rest)
  from Cons.prems obtain v1 where step: "parse_output env ci n vars out = Inr v1"
    and rest: "parse_outputs env ci n rest v1 = Inr vars'"
    by (auto split: sum.splits)
  from step have "\<exists>v v'. parse_output env ci n v out = Inr v'" by blast
  with Cons.IH [OF rest] show ?case by simp
qed

text \<open>
  Claim C4, as amended. A request whose \<^verbatim>\<open>outputs\<close> field is not an array is
  rejected. A request whose \<^verbatim>\<open>outputs\<close> field is the empty array is accepted, with
  no outputs and total 0, exactly when its coin is known and its locktime passes.
  Every accepted request has an array of outputs, one parsed output for each element,
  and each element passes the checks of one round of the loop.
\<close>

theorem empty_outputs_accepted:
  "((\<forall>outs. field raw ''outputs'' \<noteq> Arr outs) \<longrightarrow> (\<exists>e. params env raw = Inl e))
   \<and> (field raw ''outputs'' = Arr [] \<longrightarrow>
        ((\<exists>mp. params env raw = Inr mp \<and> outputs (input mp) = [] \<and> total' (input mp) = Num (Fin 0))
         \<longleftrightarrow> getCoinInfoByCurrency env (case field raw ''coin'' of Str c \<Rightarrow> c | v \<Rightarrow> ''Bitcoin'') \<noteq> None
             \<and> \<not> (truthy (field raw ''locktime'') \<and> isNaN (parseInt (field raw ''locktime'')))))
   \<and> (\<forall>mp. params env raw = Inr mp \<longrightarrow>
        (\<exists>outs. field raw ''outputs'' = Arr outs
           \<and> length (outputs (input mp)) = length outs
           \<and> list_all (\<lambda>out. \<exists>v v'. parse_output env (coinInfo (input mp)) (length outs) v out = Inr v') outs))"
proof (intro conjI impI allI)
  assume "\<forall>outs. field raw ''outputs'' \<noteq> Arr outs"
  then have "params env raw \<noteq> Inr mp" for mp
    using params_InrD [of env raw mp] by auto
  then show "\<exists>e. params env raw = Inl e"
    by (cases "params env raw") auto
next
  assume empty: "field raw ''outputs'' = Arr []"
  show "(\<exists>mp. params env raw = Inr mp \<and> outputs (input mp) = [] \<and> total' (input mp) = Num (Fin 0))
         \<longleftrightarrow> getCoinInfoByCurrency env (case field raw ''coin'' of Str c \<Rightarrow> c | v \<Rightarrow> ''Bitcoin'') \<noteq> None
             \<and> \<not> (truthy (field raw ''locktime'') \<and> isNaN (parseInt (field raw ''locktime'')))"
  proof
    assume "\<exists>mp. params env raw = Inr mp \<and> outputs (input mp) = [] \<and> total' (input mp) = Num (Fin 0)"
    then obtain mp where "params env raw = Inr mp" by blast
    from params_InrD [OF this]
    show "getCoinInfoByCurrency env (case field raw ''coin'' of Str c \<Rightarrow> c | v \<Rightarrow> ''Bitcoin'') \<noteq> None
             \<and> \<not> (truthy (field raw ''locktime'') \<and> isNaN (parseInt (field raw ''locktime'')))"
      by auto
  next
    assume ok: "getCoinInfoByCurrency env (case field raw ''coin'' of Str c \<Rightarrow> c | v \<Rightarrow> ''Bitcoin'') \<noteq> None
             \<and> \<not> (truthy (field raw ''locktime'') \<and> isNaN (parseInt (field raw ''locktime'')))"
    then obtain ci where
      ci: "getCoinInfoByCurrency env (case field raw ''coin'' of Str c \<Rightarrow> c | v \<Rightarrow> ''Bitcoin'') = Some ci"
      by auto
    from ok have lt: "\<not> (truthy (field raw ''locktime'') \<and> isNaN (parseInt (field raw ''locktime'')))"
      by simp
    have "parse_outputs env ci (length ([]::jsval list)) []
        \<lparr>total_var = Num (Fin 0), hasSendMax = False, parsedOutputs = []\<rparr>
        = Inr \<lparr>total_var = Num (Fin 0), hasSendMax = False, parsedOutputs = []\<rparr>"
      by simp
    from params_accepted [OF ci lt empty this]
    show "\<exists>mp. params env raw = Inr mp \<and> outputs (input mp) = [] \<and> total' (input mp) = Num (Fin 0)"
      by simp
  qed
next
  fix mp
  assume acc: "params env raw = Inr mp"
  from params_InrD [OF acc] obtain ci outs vars where
    outs: "field raw ''outputs'' = Arr outs"
    and po: "parse_outputs env ci (length outs) outs
         \<lparr>total_var = Num (Fin 0), hasSendMax = False, parsedOutputs = []\<rparr> = Inr vars"
    and o: "outputs (input mp) = parsedOutputs vars"
    and c: "coinInfo (input mp) = ci"
    by blast
  have "length (outputs (input mp)) = length outs"
    using parse_outputs_length [OF po] o by simp
  moreover have "list_all (\<lambda>out. \<exists>v v'. parse_output env (coinInfo (input mp)) (length outs) v out = Inr v') outs"
    using parse_outputs_each [OF po] c by simp
  ultimately show "\<exists>outs. field raw ''outputs'' = Arr outs
           \<and> length (outputs (input mp)) = length outs
           \<and> list_all (\<lambda>out. \<exists>v v'. parse_output env (coinInfo (input mp)) (length outs) v out = Inr v') outs"
    using outs by blast
qed


lemma parse_output_total:
  assumes step: "parse_output env ci n vars out = Inr vars'"
    and tot: "total_var vars = Num (Fin k)" "0 \<le> k"
    and amt: "get_prop out ''type'' \<noteq> Some (Str ''send-max'') \<longrightarrow> (\<exists>m\<ge>0. prop_of out ''amount'' = Num (Fin m))"
  shows "\<exists>k'\<ge>0. total_var vars' = Num (Fin k')"
proof (cases "get_prop out ''type''")
  case None
  with step show ?thesis by (simp add: parse_output_def)
next
  case (Some ty)
  show ?thesis
  proof (cases "ty = Str ''opreturn''")
    case True
    with Some step tot show ?thesis
      by (auto simp: parse_output_def split: if_splits sum.splits)
  next
    case not_op: False
    show ?thesis
    proof (cases "ty = Str ''send-max''")
      case True
      with Some not_op step tot show ?thesis
        by (auto simp: parse_output_def split: if_splits)
    next
      case False
      with Some amt obtain m where m: "0 \<le> m" "prop_of out ''amount'' = Num (Fin m)" by auto
      from False Some not_op step have "complete_output env ci vars out = Inr vars'"
        by (simp add: parse_output_def)
      then have "total_var vars' = js_add (total_var vars) (prop_of out ''amount'')"
        by (auto simp: complete_output_def split: jsval.splits option.splits if_splits)
      with tot m have "total_var vars' = Num (Fin (k + m))"
        by (simp add: js_add_def)
      with tot m show ?thesis by simp
    qed
  qed
qed

lemma parse_outputs_total:
  assumes "parse_outputs env ci n outs vars = Inr vars'"
    and "total_var vars = Num (Fin k)" "0 \<le> k"
    and "list_all (\<lambda>out. get_prop out ''type'' \<noteq> Some (Str ''send-max'')
            \<longrightarrow> (\<exists>m\<ge>0. prop_of out ''amount'' = Num (Fin m))) outs"
  shows "\<exists>k'\<ge>0. total_var vars' = Num (Fin k')"
  using assms
proof (induction outs arbitrary: vars k)
  case Nil
  then show ?case by simp
next
  case (Cons out rest)
  from Cons.prems(1) obtain v1 where step: "parse_output env ci n vars out = Inr v1"
    and rest: "parse_outputs env ci n rest v1 = Inr vars'"
    by (auto split: sum.splits)
  from Cons.prems(4) have amt: "get_prop out ''type'' \<noteq> Some (Str ''send-max'')
            \<longrightarrow> (\<exists>m\<ge>0. prop_of out ''amount'' = Num (Fin m))"
    and amts: "list_all (\<lambda>out. get_prop out ''type'' \<noteq> Some (Str ''send-max'')
            \<longrightarrow> (\<exists>m\<ge>0. prop_of out ''amount'' = Num (Fin m))) rest"
    by simp_all
  from parse_output_total [OF step Cons.prems(2,3) amt]
  obtain k1 where "0 \<le> k1" "total_var v1 = Num (Fin k1)" by blast
  from Cons.IH [OF rest this(2) this(1) amts] show ?case .
qed

lemma parse_output_hasSendMax:
  assumes "parse_output env ci n vars out = Inr vars'"
    and "hasSendMax vars \<or> get_prop out ''type'' = Some (Str ''send-max'')"
  shows "hasSendMax vars'"
proof (cases "get_prop out ''type''")
  case None
  with assms show ?thesis by (simp add: parse_output_def)
next
  case (Some ty)
  show ?thesis
  proof (cases "ty = Str ''opreturn''")
    case True
    with Some assms show ?thesis
      by (auto simp: parse_output_def split: if_splits sum.splits)
  next
    case not_op: False
    show ?thesis
    proof (cases "ty = Str ''send-max''")
      case True
      with Some not_op assms show ?thesis
        by (auto simp: parse_output_def split: if_splits)
    next
      case False
      with Some not_op assms have "complete_output env ci vars out = Inr vars'" "hasSendMax vars"
        by (simp_all add: parse_output_def)
      then show ?thesis
        by (auto simp: complete_output_def split: jsval.splits option.splits if_splits)
    qed
  qed
qed

lemma parse_outputs_hasSendMax:
  assumes "parse_outputs env ci n outs vars = Inr vars'"
    and "hasSendMax vars \<or> list_ex (\<lambda>out. get_prop out ''type'' = Some (Str ''send-max'')) outs"
  shows "hasSendMax vars'"
  using assms
proof (induction outs arbitrary: vars)
  case Nil
  then show ?case by simp
next
  case (Cons out rest)
  from Cons.prems(1) obtain v1 where step: "parse_output env ci n vars out = Inr v1"
    and rest: "parse_outputs env ci n rest v1 = Inr vars'"
    by (auto split: sum.splits)
  show ?case
  proof (cases "hasSendMax vars \<or> get_prop out ''type'' = Some (Str ''send-max'')")
    case True
    from parse_output_hasSendMax [OF step True] have "hasSendMax v1" .
    then show ?thesis using Cons.IH [OF rest] by simp
  next
    case False
    with Cons.prems(2) have "list_ex (\<lambda>out. get_prop out ''type'' = Some (Str ''send-max'')) rest"
      by simp
    then show ?thesis using Cons.IH [OF rest] by simp
  qed
qed

text \<open>
  Claim C2, as amended. For every accepted request with a send-max output in which the
  amount of every other output is a number that is not negative, the total of the
  resulting request is 0.
\<close>

theorem send_max_total_zero:
  assumes acc: "params env raw = Inr mp"
    and outs: "field raw ''outputs'' = Arr outs"
    and sm: "list_ex (\<lambda>out. get_prop out ''type'' = Some (Str ''send-max'')) outs"
    and amts: "list_all (\<lambda>out. get_prop out ''type'' \<noteq> Some (Str ''send-max'')
            \<longrightarrow> (\<exists>m\<ge>0. prop_of out ''amount'' = Num (Fin m))) outs"
  shows "total' (input mp) = Num (Fin 0)"
proof -
  from params_InrD [OF acc] outs obtain ci vars where
    po: "parse_outputs env ci (length outs) outs
         \<lparr>total_var = Num (Fin 0), hasSendMax = False, parsedOutputs = []\<rparr> = Inr vars"
    and t: "total' (input mp) = (if js_gt_zero (total_var vars) \<and> hasSendMax vars
                             then Num (Fin 0) else total_var vars)"
    by auto
  have "hasSendMax vars" using parse_outputs_hasSendMax [OF po] sm by simp
  moreover obtain k where "0 \<le> k" "total_var vars = Num (Fin k)"
    using parse_outputs_total [OF po _ _ amts, of 0] by auto
  ultimately show ?thesis using t by (cases "k = 0") (simp_all add: js_gt_zero_def)
qed

lemma opreturn_hex_iff:
  assumes "prop_of out ''data'' = Str d" "d \<noteq> []" "prop_of out ''dataFormat'' \<noteq> Str ''text''"
  shows "(\<exists>v. opreturn_data env out = Inr v) \<longleftrightarrow> length d = 6 \<and> list_all is_hex_char d"
  using assms by (auto simp: opreturn_data_def re_test_def)

subsection \<open>Evaluation on concrete requests\<close>

lemmas js_defs = field_def parseInt_def parseInt_string_def number_to_string_def show_int_def
  show_digits.simps digit_char_def is_ws_def is_radix_digit_def digit_val_def digits_value_def
  isNaN_def js_add_def js_gt_zero_def string_gt_zero_def trim_def nondecimal_positive_def
  unsigned_decimal_positive_def exponent_ok_def is_dec_digit_def prop_of_def

lemmas params_defs = params_def parse_output_def complete_output_def opreturn_data_def re_test_def
  is_hex_char_def example_env_def example_stringToHex_def hex_digit_def bitcoin_def

text \<open>A request with no \<^verbatim>\<open>coin\<close> field is validated as the same request for Bitcoin.\<close>

theorem coin_defaults_to_Bitcoin_witness:
  "\<not> is_string (field [(''outputs'', Arr [])] ''coin'')
   \<and> getCoinInfoByCurrency example_env ''Bitcoin'' \<noteq> None
   \<and> params example_env [(''outputs'', Arr [])]
       = params example_env [(''coin'', Str ''Bitcoin''), (''outputs'', Arr [])]
   \<and> params example_env [(''outputs'', Arr [])] \<noteq> Inl (Error ''Coin undefined not found'')"
proof -
  have a: "\<not> is_string (field [(''outputs'', Arr [])] ''coin'')"
    by (simp add: field_def)
  have b: "getCoinInfoByCurrency example_env ''Bitcoin'' \<noteq> None"
    by (simp add: example_env_def)
  from coin_defaults_to_Bitcoin [of "[(''outputs'', Arr [])]" example_env] a b
  have "params example_env [(''outputs'', Arr [])]
       = params example_env [(''coin'', Str ''Bitcoin''), (''outputs'', Arr [])]"
    and "\<forall>x. params example_env [(''outputs'', Arr [])] \<noteq> Inl (Error (''Coin '' @ x @ '' not found''))"
    by blast+
  from this(1) this(2) [rule_format, of "''undefined''"] a b show ?thesis by simp
qed

text \<open>
  Against claim C10 as it is stated: the locktime 0 is falsy, the request is accepted,
  and its locktime is 0, not \<open>NaN\<close>.
\<close>

theorem falsy_locktime_counterexample:
  "\<not> truthy (field [(''coin'', Str ''Bitcoin''), (''locktime'', Num (Fin 0)), (''outputs'', Arr [])] ''locktime'')
   \<and> params example_env [(''coin'', Str ''Bitcoin''), (''locktime'', Num (Fin 0)), (''outputs'', Arr [])]
     = Inr \<lparr>responseID = Undefined, method_name = ''composetx'', useUi = True, useDevice = True,
            requiredFirmware = ''1.5.0'', requiredPermissions = [''write''],
            input = \<lparr>outputs = [], locktime = Fin 0, coinInfo = bitcoin, total' = Num (Fin 0),
                      pushTransaction = False\<rparr>\<rparr>"
  by code_simp

text \<open>A request with no \<^verbatim>\<open>locktime\<close> field is accepted with the locktime \<open>NaN\<close>.\<close>

theorem falsy_locktime_witness:
  "\<not> truthy (field [(''coin'', Str ''Bitcoin''), (''outputs'', Arr [])] ''locktime'')
   \<and> params example_env [(''coin'', Str ''Bitcoin''), (''outputs'', Arr [])]
       \<noteq> Inl (Error ''Locktime is not a number'')
   \<and> locktime (input \<lparr>responseID = Undefined, method_name = ''composetx'', useUi = True, useDevice = True,
            requiredFirmware = ''1.5.0'', requiredPermissions = [''write''],
            input = \<lparr>outputs = [], locktime = NaN, coinInfo = bitcoin, total' = Num (Fin 0),
                      pushTransaction = False\<rparr>\<rparr>) = NaN"
proof -
  let ?raw = "[(''coin'', Str ''Bitcoin''), (''outputs'', Arr [])]"
  let ?mp = "\<lparr>responseID = Undefined, method_name = ''composetx'', useUi = True, useDevice = True,
            requiredFirmware = ''1.5.0'', requiredPermissions = [''write''],
            input = \<lparr>outputs = [], locktime = NaN, coinInfo = bitcoin, total' = Num (Fin 0),
                      pushTransaction = False\<rparr>\<rparr>"
  have a: "\<not> truthy (field ?raw ''locktime'')" by (simp add: field_def)
  have b: "params example_env ?raw = Inr ?mp" by code_simp
  have c: "field ?raw ''locktime'' \<noteq> Num (Fin 0)" by (simp add: field_def)
  from falsy_locktime [of ?raw example_env] a
  have "params example_env ?raw \<noteq> Inl (Error ''Locktime is not a number'')"
    and "\<forall>mp. params example_env ?raw = Inr mp \<longrightarrow>
          locktime (input mp) = (if field ?raw ''locktime'' = Num (Fin 0) then Fin 0 else NaN)"
    by blast+
  from this(1) this(2) [rule_format, OF b] a c show ?thesis by simp
qed

text \<open>
  Against claim C4 as it is stated: a request for Bitcoin with the empty array of outputs
  is accepted.
\<close>

theorem empty_outputs_counterexample:
  "params example_env [(''coin'', Str ''Bitcoin''), (''outputs'', Arr [])]
     = Inr \<lparr>responseID = Undefined, method_name = ''composetx'', useUi = True, useDevice = True,
            requiredFirmware = ''1.5.0'', requiredPermissions = [''write''],
            input = \<lparr>outputs = [], locktime = NaN, coinInfo = bitcoin, total' = Num (Fin 0),
                      pushTransaction = False\<rparr>\<rparr>"
  by code_simp

text \<open>The same for a request that names the coin by its shortcut and sets \<^verbatim>\<open>push\<close>.\<close>

theorem empty_outputs_accepted_witness:
  "field [(''coin'', Str ''btc''), (''outputs'', Arr []), (''push'', Bool True)] ''outputs'' = Arr []
   \<and> (\<exists>mp. params example_env [(''coin'', Str ''btc''), (''outputs'', Arr []), (''push'', Bool True)] = Inr mp
        \<and> outputs (input mp) = [] \<and> total' (input mp) = Num (Fin 0))"
proof -
  let ?raw = "[(''coin'', Str ''btc''), (''outputs'', Arr []), (''push'', Bool True)]"
  have a: "field ?raw ''outputs'' = Arr []" by (simp add: field_def)
  have b: "getCoinInfoByCurrency example_env (case field ?raw ''coin'' of Str c \<Rightarrow> c | v \<Rightarrow> ''Bitcoin'') \<noteq> None"
    by (simp add: field_def example_env_def)
  have c: "\<not> (truthy (field ?raw ''locktime'') \<and> isNaN (parseInt (field ?raw ''locktime'')))"
    by (simp add: field_def)
  from empty_outputs_accepted [of ?raw example_env] a b c show ?thesis by blast
qed

text \<open>
  Against claim C2 as it is stated: a send-max output and an output with the amount
  \<open>-5\<close>. The sum \<open>-5\<close> is not above zero, so the total is not reset.
\<close>

theorem send_max_total_counterexample:
  "params example_env
     [(''coin'', Str ''Bitcoin''),
      (''outputs'', Arr [Obj [(''type'', Str ''send-max''), (''address'', Str ''1BitcoinEaterAddressDontSendf59kuE'')],
                         Obj [(''address'', Str ''3P14159f73E4gFr7JterCCQh9QjiTjiZrG''), (''amount'', Num (Fin (- 5)))]])]
     = Inr \<lparr>responseID = Undefined, method_name = ''composetx'', useUi = True, useDevice = True,
            requiredFirmware = ''1.5.0'', requiredPermissions = [''write''],
            input = \<lparr>outputs = [SendMax (Str ''1BitcoinEaterAddressDontSendf59kuE''),
                                 Complete ''3P14159f73E4gFr7JterCCQh9QjiTjiZrG'' (Fin (- 5))],
                      locktime = NaN, coinInfo = bitcoin, total' = Num (Fin (- 5)),
                      pushTransaction = False\<rparr>\<rparr>"
  by code_simp

text \<open>A send-max output after an output of 50000: the total is 0.\<close>

theorem send_max_total_zero_witness:
  "list_ex (\<lambda>out. get_prop out ''type'' = Some (Str ''send-max''))
     [Obj [(''address'', Str ''3P14159f73E4gFr7JterCCQh9QjiTjiZrG''), (''amount'', Num (Fin 50000))],
      Obj [(''type'', Str ''send-max''), (''address'', Str ''1BitcoinEaterAddressDontSendf59kuE'')]]
   \<and> (\<exists>mp. params example_env
         [(''coin'', Str ''Bitcoin''),
          (''outputs'', Arr
            [Obj [(''address'', Str ''3P14159f73E4gFr7JterCCQh9QjiTjiZrG''), (''amount'', Num (Fin 50000))],
             Obj [(''type'', Str ''send-max''), (''address'', Str ''1BitcoinEaterAddressDontSendf59kuE'')]])]
         = Inr mp
       \<and> total' (input mp) = Num (Fin 0))"
proof -
  let ?outs = "[Obj [(''address'', Str ''3P14159f73E4gFr7JterCCQh9QjiTjiZrG''), (''amount'', Num (Fin 50000))],
                Obj [(''type'', Str ''send-max''), (''address'', Str ''1BitcoinEaterAddressDontSendf59kuE'')]]"
  let ?raw = "[(''coin'', Str ''Bitcoin''), (''outputs'', Arr ?outs)]"
  have "params example_env ?raw
     = Inr \<lparr>responseID = Undefined, method_name = ''composetx'', useUi = True, useDevice = True,
            requiredFirmware = ''1.5.0'', requiredPermissions = [''write''],
            input = \<lparr>outputs = [Complete ''3P14159f73E4gFr7JterCCQh9QjiTjiZrG'' (Fin 50000),
                                 SendMax (Str ''1BitcoinEaterAddressDontSendf59kuE'')],
                      locktime = NaN, coinInfo = bitcoin, total' = Num (Fin 0),
                      pushTransaction = False\<rparr>\<rparr>"
    by (simp add: js_defs params_defs)
  then obtain mp where mp: "params example_env ?raw = Inr mp" ..
  have a: "field ?raw ''outputs'' = Arr ?outs" by (simp add: field_def)
  have b: "list_ex (\<lambda>out. get_prop out ''type'' = Some (Str ''send-max'')) ?outs" by (simp add: field_def)
  have c: "list_all (\<lambda>out. get_prop out ''type'' \<noteq> Some (Str ''send-max'')
            \<longrightarrow> (\<exists>m\<ge>0. prop_of out ''amount'' = Num (Fin m))) ?outs"
    by (simp add: field_def prop_of_def)
  have t: "total' (input mp) = Num (Fin 0)"
    by (rule send_max_total_zero [OF mp a b c])
  from mp t have "\<exists>mp. params example_env ?raw = Inr mp \<and> total' (input mp) = Num (Fin 0)"
    by (intro exI conjI)
  with b show ?thesis by (rule conjI)
qed

text \<open>
  Claim C3. A request whose only output is of type \<^verbatim>\<open>opreturn\<close> with a valid
  hexadecimal payload of at most 160 characters should be accepted. The regular
  expression of the validator asks for exactly six hexadecimal characters, so the
  four bytes \<^verbatim>\<open>deadbeef\<close> are rejected as not hexadecimal.
\<close>

theorem opreturn_hex_payload_rejected:
  "params example_env
     [(''coin'', Str ''Bitcoin''),
      (''outputs'', Arr [Obj [(''type'', Str ''opreturn''), (''data'', Str ''deadbeef'')]])]
   = Inl (Error ''OP_RETURN data is not valid hexadecimal'')"
  by code_simp

section \<open>Properties of the workflow\<close>

lemma composingCycle_stray:
  "event r \<noteq> RECEIVE_ACCOUNT \<Longrightarrow> event r \<noteq> RECEIVE_FEE \<Longrightarrow> event r \<noteq> CHANGE_ACCOUNT \<Longrightarrow>
   composingCycle env inp (UiResponse r # rest) s = composingCycle env inp rest s"
  by simp

text \<open>
  A fee response is never dropped, in whatever state it arrives. An edit of the custom
  fee (\<^verbatim>\<open>type: 'custom'\<close>) that arrives before any account was selected throws; once
  a composer exists it recomposes the last slot and posts the update, also when the
  account view is shown again.
\<close>

lemma custom_fee_without_composer:
  "get_prop d ''type'' = Some (Str ''custom'') \<Longrightarrow> txComposer s = None \<Longrightarrow>
   composingCycle env inp (UiResponse \<lparr>event = RECEIVE_FEE, data = d\<rparr> # rest) s
     = (Threw (Error ''TransactionComposer not initialized.''), s)"
  by simp

lemma custom_fee_with_composer:
  "get_prop d ''type'' = Some (Str ''custom'') \<Longrightarrow> txComposer s = Some c \<Longrightarrow>
   tx = compose env (composer_account c) (outputs inp) (parseInt (prop_of d ''value'')) \<Longrightarrow>
   composingCycle env inp (UiResponse \<lparr>event = RECEIVE_FEE, data = d\<rparr> # rest) s
     = composingCycle env inp rest
         (postMessage
            ((emit s (Compose (parseInt (prop_of d ''value''))))\<lparr>txComposer := Some (set_last_composed c tx)\<rparr>)
            (UPDATE_CUSTOM_FEE (simpleTxResult (customFeeLevel env) (getEstimatedTime env (fee_of tx)) tx)))"
  by (simp add: Let_def)

text \<open>
  Claim C7, as amended. A response of the popup whose event is none of
  \<open>RECEIVE_ACCOUNT\<close>, \<open>RECEIVE_FEE\<close> and \<open>CHANGE_ACCOUNT\<close> is dropped: after any
  number of such responses the cycle goes on with the next event in the same session
  (nothing is posted, nothing is thrown, no variable changes), and with nothing but
  such responses it is still waiting. Every fee response, an edit of the custom fee
  included, is outside of this: it is handled in every state.
\<close>

theorem stray_events_ignored:
  assumes "list_all (\<lambda>r. event r \<noteq> RECEIVE_ACCOUNT \<and> event r \<noteq> RECEIVE_FEE \<and> event r \<noteq> CHANGE_ACCOUNT) rs"
  shows "composingCycle env inp (map UiResponse rs @ rest) s = composingCycle env inp rest s
       \<and> composingCycle env inp (map UiResponse rs) s = (Pending, s)"
proof -
  have "composingCycle env inp (map UiResponse rs @ evs) s = composingCycle env inp evs s" for evs
    using assms
  proof (induction rs)
    case Nil
    then show ?case by simp
  next
    case (Cons r rs)
    then show ?case by (simp del: composingCycle.simps add: composingCycle_stray)
  qed
  from this [of rest] this [of "[]"] show ?thesis by simp
qed

lemma composingCycle_append:
  "composingCycle env inp pre s0 = (Pending, s) \<Longrightarrow>
   composingCycle env inp (pre @ rest) s0 = composingCycle env inp rest s"
proof (induction env inp pre s0 rule: composingCycle.induct)
  case (1 env inp s)
  then show ?case by simp
next
  case (2 env inp a allAccounts rest' s0)
  then show ?case by simp
next
  case (3 env inp a allAccounts rest' s0)
  then show ?case by simp
next
  case (4 env inp allAccounts rest' s0)
  then show ?case by simp
next
  case (5 env inp e rest' s0)
  then show ?case by simp
next
  case (6 env inp uiResponse rest' s0)
  show ?case
  proof (cases "event uiResponse")
    case RECEIVE_ACCOUNT
    show ?thesis
    proof (cases "onAccountSelection env inp (emit s0 StopDiscovering) (parseInt (data uiResponse))")
      case (Pair r s1)
      show ?thesis
      proof (cases r)
        case None
        with RECEIVE_ACCOUNT Pair 6 show ?thesis by simp
      next
        case (Some e)
        with RECEIVE_ACCOUNT Pair "6.prems" show ?thesis by simp
      qed
    qed
  next
    case RECEIVE_FEE
    show ?thesis
    proof (cases "get_prop (data uiResponse) ''type''")
      case None
      with RECEIVE_FEE "6.prems" show ?thesis by simp
    next
      case (Some ty)
      show ?thesis
      proof (cases "ty = Str ''custom''")
        case True
        show ?thesis
        proof (cases "txComposer s0")
          case None
          with True Some RECEIVE_FEE "6.prems" show ?thesis by simp
        next
          case (Some c)
          with True \<open>get_prop (data uiResponse) ''type'' = Some ty\<close> RECEIVE_FEE 6 show ?thesis
            by (simp add: Let_def)
        qed
      next
        case False
        with Some RECEIVE_FEE "6.prems" show ?thesis
          by (auto split: option.splits if_splits)
      qed
    qed
  next
    case CHANGE_ACCOUNT
    with 6 show ?thesis by simp
  next
    case (OTHER_EVENT x)
    with 6 show ?thesis by simp
  qed
qed

lemma check_valid_two_send_max:
  "ErrorResult ''TWO-SEND-MAX'' \<in> set txs \<Longrightarrow> check_valid txs v = Inl (Error ''Double send max!'')"
  by (induction txs v rule: check_valid.induct) auto

lemma check_valid_no_two_send_max:
  "ErrorResult ''TWO-SEND-MAX'' \<notin> set txs \<Longrightarrow> check_valid txs v = Inr (v \<or> list_ex is_final txs)"
  by (induction txs v rule: check_valid.induct) auto

lemma onAccountSelection_two_send_max:
  assumes "sel = array_get (accounts s) i"
    and "init env sel (outputs inp) = None"
    and "composeAllLevels env sel (outputs inp) = Inr txs"
    and "ErrorResult ''TWO-SEND-MAX'' \<in> set txs"
  shows "onAccountSelection env inp s i =
     (Some (Error ''Double send max!''),
      s\<lparr>selectedAccount := sel,
        txComposer := Some \<lparr>composer_account = sel, composed = txs, composed_minus1 = None\<rparr>,
        trace := trace s @ [NewComposer sel, ComposeAllLevels]\<rparr>)"
  using assms
  by (simp add: onAccountSelection_def Let_def emit_def check_valid_two_send_max)

lemma method_cycle:
  "createBackend env (name (coinInfo inp)) = None \<Longrightarrow>
   method env inp events =
     (case composingCycle env inp events (emit (method_begin env inp) (Discover None)) of
       (Returned tx, s) \<Rightarrow> sign_and_push env inp tx s
     | (Threw e, s) \<Rightarrow> (Threw e, s)
     | (Pending, s) \<Rightarrow> (Pending, s))"
  by (simp add: method_def)

text \<open>
  Claim C8. When the account response arrives in a waiting session and the
  transactions composed for the selected account contain an error
  \<^verbatim>\<open>TWO-SEND-MAX\<close>, \<^verbatim>\<open>method\<close> throws \<^verbatim>\<open>Double send max!\<close>. The trace grows by
  the stop of the discovery, the new composer and \<^verbatim>\<open>composeAllLevels\<close> only: there
  is no further call of \<^verbatim>\<open>compose\<close>, no message and no wait.
\<close>

theorem double_send_max_aborts:
  assumes backend: "createBackend env (name (coinInfo inp)) = None"
    and waiting: "composingCycle env inp pre (emit (method_begin env inp) (Discover None)) = (Pending, s)"
    and sel: "sel = array_get (accounts s) (parseInt d)"
    and init: "init env sel (outputs inp) = None"
    and txs: "composeAllLevels env sel (outputs inp) = Inr txs"
    and two: "ErrorResult ''TWO-SEND-MAX'' \<in> set txs"
  shows "method env inp (pre @ UiResponse \<lparr>event = RECEIVE_ACCOUNT, data = d\<rparr> # rest) =
     (Threw (Error ''Double send max!''),
      s\<lparr>selectedAccount := sel,
        txComposer := Some \<lparr>composer_account = sel, composed = txs, composed_minus1 = None\<rparr>,
        trace := trace s @ [StopDiscovering, NewComposer sel, ComposeAllLevels]\<rparr>)"
proof -
  let ?s = "emit s StopDiscovering"
  have "onAccountSelection env inp ?s (parseInt d) =
     (Some (Error ''Double send max!''),
      ?s\<lparr>selectedAccount := sel,
        txComposer := Some \<lparr>composer_account = sel, composed = txs, composed_minus1 = None\<rparr>,
        trace := trace ?s @ [NewComposer sel, ComposeAllLevels]\<rparr>)"
    using sel init txs two by (intro onAccountSelection_two_send_max) (simp_all add: emit_def)
  then have "composingCycle env inp (UiResponse \<lparr>event = RECEIVE_ACCOUNT, data = d\<rparr> # rest) s =
     (Threw (Error ''Double send max!''),
      s\<lparr>selectedAccount := sel,
        txComposer := Some \<lparr>composer_account = sel, composed = txs, composed_minus1 = None\<rparr>,
        trace := trace s @ [StopDiscovering, NewComposer sel, ComposeAllLevels]\<rparr>)"
    by (simp add: emit_def)
  then show ?thesis
    using composingCycle_append [OF waiting] by (simp add: method_cycle [OF backend])
qed

lemma sign_and_push_broadcast_failure:
  assumes push: "pushTransaction inp"
    and refs: "(txComposer s = None \<and> refTx = [] \<and> s1 = s)
             \<or> (txComposer s \<noteq> None \<and> transaction_inputs tx = Inr ins
                 \<and> getReferencedTx env ins = Inr refTx \<and> s1 = emit s (GetReferencedTx ins))"
    and sign: "signTx env tx refTx (coinInfo inp) (locktime inp) = Inr signedtx"
    and send: "sendTransactionHex env (serialized_tx signedtx) = Inl message"
  shows "sign_and_push env inp tx s =
     (Threw (PushFailure \<lparr>signatures = signatures signedtx, serialized_tx = serialized_tx signedtx,
                          custom = True, error = message\<rparr>),
      s1\<lparr>trace := trace s1 @ [SignTx tx refTx (locktime inp), SendTransactionHex (serialized_tx signedtx)]\<rparr>)"
  using assms by (auto simp: sign_and_push_def Let_def emit_def)

lemma sign_and_push_success:
  assumes refs: "(txComposer s = None \<and> refTx = [] \<and> s1 = s)
             \<or> (txComposer s \<noteq> None \<and> transaction_inputs tx = Inr ins
                 \<and> getReferencedTx env ins = Inr refTx \<and> s1 = emit s (GetReferencedTx ins))"
    and sign: "signTx env tx refTx (coinInfo inp) (locktime inp) = Inr signedtx"
    and send: "pushTransaction inp \<longrightarrow> sendTransactionHex env (serialized_tx signedtx) = Inr txId"
  shows "sign_and_push env inp tx s =
     (Returned \<lparr>signatures = signatures signedtx, serialized_tx = serialized_tx signedtx,
                txid = (if pushTransaction inp then Some txId else None)\<rparr>,
      s1\<lparr>trace := trace s1 @ [SignTx tx refTx (locktime inp)]
           @ (if pushTransaction inp then [SendTransactionHex (serialized_tx signedtx)] else [])
           @ [Dispose]\<rparr>)"
  using assms by (auto simp: sign_and_push_def Let_def emit_def)

text \<open>
  Claim C5. When \<^verbatim>\<open>pushTransaction\<close> is set, the device has signed, and
  \<^verbatim>\<open>sendTransactionHex\<close> fails with a message, \<^verbatim>\<open>method\<close> throws an object that
  holds this message (\<^verbatim>\<open>error\<close>), the flag \<^verbatim>\<open>custom\<close>, and the signatures and the
  serialized transaction of the device's answer.
\<close>

theorem broadcast_failure_carries_signed_tx:
  assumes backend: "createBackend env (name (coinInfo inp)) = None"
    and cycle: "composingCycle env inp events (emit (method_begin env inp) (Discover None)) = (Returned tx, s)"
    and push: "pushTransaction inp"
    and refs: "(txComposer s = None \<and> refTx = [])
             \<or> (txComposer s \<noteq> None \<and> transaction_inputs tx = Inr ins \<and> getReferencedTx env ins = Inr refTx)"
    and sign: "signTx env tx refTx (coinInfo inp) (locktime inp) = Inr signedtx"
    and send: "sendTransactionHex env (serialized_tx signedtx) = Inl message"
  shows "fst (method env inp events) =
     Threw (PushFailure \<lparr>signatures = signatures signedtx, serialized_tx = serialized_tx signedtx,
                         custom = True, error = message\<rparr>)"
proof -
  from refs obtain s1 where "(txComposer s = None \<and> refTx = [] \<and> s1 = s)
             \<or> (txComposer s \<noteq> None \<and> transaction_inputs tx = Inr ins
                 \<and> getReferencedTx env ins = Inr refTx \<and> s1 = emit s (GetReferencedTx ins))"
    by auto
  from sign_and_push_broadcast_failure [OF push this sign send] cycle
  show ?thesis by (simp add: method_cycle [OF backend])
qed

lemma fee_list_zip:
  assumes "length ts = length levels"
    and "\<And>i. i < length levels \<Longrightarrow> get (Fin (int (k + i))) = Some (ts ! i)"
  shows "fee_list env get (enumerate k levels) acc =
     Inr (acc @ map (\<lambda>(level, t). simpleTxResult level (getEstimatedTime env (fee_of t)) t) (zip levels ts))"
  using assms
proof (induction levels arbitrary: ts k acc)
  case Nil
  then show ?case by simp
next
  case (Cons level levels)
  from Cons.prems(1) obtain t ts' where ts: "ts = t # ts'" and len: "length ts' = length levels"
    by (cases ts) auto
  have first: "get (Fin (int k)) = Some t"
    using Cons.prems(2) [of 0] ts by simp
  have rest: "get (Fin (int (Suc k + i))) = Some (ts' ! i)" if "i < length levels" for i
    using Cons.prems(2) [of "Suc i"] that ts by simp
  show ?case
    using Cons.IH [OF len rest] first ts by simp
qed

lemma array_get_nat:
  "i < length xs \<Longrightarrow> array_get xs (Fin (int i)) = Some (xs ! i)"
  by (simp add: array_get_def)

lemma composed_get_nat:
  "i < length (composed c) \<Longrightarrow> composed_get c (Fin (int i)) = Some (composed c ! i)"
  by (simp add: composed_get_def array_get_def)

lemma restoreDiscovery_compose_calls:
  "compose_calls (trace (restoreDiscovery inp s)) = compose_calls (trace s)"
  by (simp add: restoreDiscovery_def onComplete_def postMessage_def emit_def compose_calls_def Let_def)

lemma show_fee_view_ok:
  assumes c: "txComposer s = Some c" and len: "length (composed c) = length txs"
    and levels: "length txs = length (feeLevels env)" "feeLevels env \<noteq> []"
    and seen: "seen = (if composeAllLevels_shared env then composed c else txs)"
  shows "show_fee_view env inp txs s =
    (None, s\<lparr>trace := trace s
        @ (if total' inp = Num (Fin 0)
           then [PostMessage (SET_OPERATION (''Send '' @ formatAmount env (totalSpent_of (last seen)) (coinInfo inp)))]
           else [])
        @ [PostMessage (SELECT_FEE
             (map (\<lambda>(level, t). simpleTxResult level (getEstimatedTime env (fee_of t)) t)
                (zip (feeLevels env) seen)))]\<rparr>)"
proof -
  from levels have ne: "txs \<noteq> []" by auto
  have seen_len: "length seen = length (feeLevels env)"
    using seen len levels by simp
  have get: "txs_get env txs s' (Fin (int i)) = Some (seen ! i)"
    if "i < length (feeLevels env)" "txComposer s' = Some c" for i s'
    using that seen len levels
    by (simp add: txs_get_def composed_get_nat array_get_nat)
  have last_ix: "Fin (int (length txs) - 1) = Fin (int (length txs - 1))"
    using ne by (cases txs) simp_all
  have last_get: "txs_get env txs s (Fin (int (length txs) - 1)) = Some (last seen)"
  proof -
    have "length txs - 1 < length (feeLevels env)" using levels ne by (cases txs) simp_all
    from get [OF this c] have "txs_get env txs s (Fin (int (length txs - 1))) = Some (seen ! (length txs - 1))" .
    moreover have "seen \<noteq> []" using seen_len levels by auto
    then have "seen ! (length txs - 1) = last seen"
      using seen_len levels by (simp add: last_conv_nth)
    ultimately show ?thesis by (simp only: last_ix)
  qed
  have list: "fee_list env (txs_get env txs s') (enumerate 0 (feeLevels env)) [] =
     Inr (map (\<lambda>(level, t). simpleTxResult level (getEstimatedTime env (fee_of t)) t)
                (zip (feeLevels env) seen))"
    if "txComposer s' = Some c" for s'
    using fee_list_zip [of seen "feeLevels env" "txs_get env txs s'" 0 env "[]"] seen_len get that
    by simp
  show ?thesis
  proof (cases "total' inp = Num (Fin 0)")
    case True
    then show ?thesis
      using last_get list [of "postMessage s m" for m] c
      by (simp add: show_fee_view_def postMessage_def emit_def)
  next
    case False
    then show ?thesis
      using list [of s] c by (simp add: show_fee_view_def postMessage_def emit_def)
  qed
qed

lemma onAccountSelection_retry:
  assumes sel: "sel = array_get (accounts s) i"
    and init: "init env sel (outputs inp) = None"
    and txs: "composeAllLevels env sel (outputs inp) = Inr txs"
    and nofinal: "\<not> list_ex is_final txs"
    and notwo: "ErrorResult ''TWO-SEND-MAX'' \<notin> set txs"
    and tx: "tx = compose env sel (outputs inp) (Fin (minFee (coinInfo inp)))"
    and c: "c = \<lparr>composer_account = sel, composed = txs, composed_minus1 = None\<rparr>"
    and s1: "s1 = s\<lparr>selectedAccount := sel, txComposer := Some c,
        trace := trace s @ [NewComposer sel, ComposeAllLevels, Compose (Fin (minFee (coinInfo inp)))]\<rparr>"
  shows "onAccountSelection env inp s i =
    (if is_final tx then show_fee_view env inp txs (s1\<lparr>txComposer := Some (set_last_composed c tx)\<rparr>)
     else (None, showInsufficientFundsView inp s1))"
  using assms
  by (simp add: onAccountSelection_def Let_def emit_def check_valid_no_two_send_max)

text \<open>
  Claim C6, as amended. When the account response arrives and the transactions composed
  for all fee levels contain neither a final transaction nor an error
  \<^verbatim>\<open>TWO-SEND-MAX\<close>, \<^verbatim>\<open>compose\<close> is called exactly once more, with the minimal fee
  of the coin. If its result is final (and the composer has returned one transaction
  for each of its fee levels, of which there is at least one), it replaces the last
  composed transaction and the fee view is posted; the cycle then waits for the next
  event. Otherwise the view of insufficient funds is posted, two seconds pass, the
  discovery is restored, and the cycle waits for the next event.
\<close>

theorem minimum_fee_retry:
  assumes sel: "sel = array_get (accounts s) (parseInt d)"
    and init: "init env sel (outputs inp) = None"
    and txs: "composeAllLevels env sel (outputs inp) = Inr txs"
    and nofinal: "\<not> list_ex is_final txs"
    and notwo: "ErrorResult ''TWO-SEND-MAX'' \<notin> set txs"
    and tx: "tx = compose env sel (outputs inp) (Fin (minFee (coinInfo inp)))"
    and levels: "is_final tx \<longrightarrow> length txs = length (feeLevels env) \<and> feeLevels env \<noteq> []"
    and s1: "s1 = s\<lparr>selectedAccount := sel,
        txComposer := Some \<lparr>composer_account = sel, composed = txs, composed_minus1 = None\<rparr>,
        trace := trace s @ [StopDiscovering, NewComposer sel, ComposeAllLevels,
                            Compose (Fin (minFee (coinInfo inp)))]\<rparr>"
    and seen: "seen = (if composeAllLevels_shared env then txs[length txs - 1 := tx] else txs)"
    and s': "s' =
      (if is_final tx then
         s1\<lparr>txComposer := Some \<lparr>composer_account = sel, composed = txs[length txs - 1 := tx],
                                  composed_minus1 = None\<rparr>,
            trace := trace s1
              @ (if total' inp = Num (Fin 0)
                 then [PostMessage (SET_OPERATION
                         (''Send '' @ formatAmount env (totalSpent_of (last seen)) (coinInfo inp)))]
                 else [])
              @ [PostMessage (SELECT_FEE
                   (map (\<lambda>(level, t). simpleTxResult level (getEstimatedTime env (fee_of t)) t)
                      (zip (feeLevels env) seen)))]\<rparr>
       else restoreDiscovery inp
              (s1\<lparr>trace := trace s1 @ [PostMessage INSUFFICIENT_FUNDS, ResolveAfter 2000]\<rparr>))"
  shows "composingCycle env inp (UiResponse \<lparr>event = RECEIVE_ACCOUNT, data = d\<rparr> # rest) s
           = composingCycle env inp rest s'
       \<and> compose_calls (trace s') = compose_calls (trace s) + 1"
proof -
  let ?s = "emit s StopDiscovering"
  let ?c = "\<lparr>composer_account = sel, composed = txs, composed_minus1 = None\<rparr>"
  have s1': "s1 = ?s\<lparr>selectedAccount := sel, txComposer := Some ?c,
        trace := trace ?s @ [NewComposer sel, ComposeAllLevels, Compose (Fin (minFee (coinInfo inp)))]\<rparr>"
    using s1 by (simp add: emit_def)
  have sel': "sel = array_get (accounts ?s) (parseInt d)"
    using sel by (simp add: emit_def)
  have step: "onAccountSelection env inp ?s (parseInt d) =
    (if is_final tx then show_fee_view env inp txs (s1\<lparr>txComposer := Some (set_last_composed ?c tx)\<rparr>)
     else (None, showInsufficientFundsView inp s1))"
    by (rule onAccountSelection_retry [OF sel' init txs nofinal notwo tx refl s1'])
  have calls1: "compose_calls (trace s1) = compose_calls (trace s) + 1"
    using s1 by (simp add: compose_calls_def)
  show ?thesis
  proof (cases "is_final tx")
    case True
    with levels have len: "length txs = length (feeLevels env)" and ne: "feeLevels env \<noteq> []"
      by simp_all
    then have txs_ne: "txs \<noteq> []" by auto
    let ?c' = "\<lparr>composer_account = sel, composed = txs[length txs - 1 := tx], composed_minus1 = None\<rparr>"
    have set: "set_last_composed ?c tx = ?c'"
      using txs_ne by (simp add: set_last_composed_def)
    have view: "show_fee_view env inp txs (s1\<lparr>txComposer := Some ?c'\<rparr>) = (None, s')"
      using show_fee_view_ok [of "s1\<lparr>txComposer := Some ?c'\<rparr>" ?c' txs env seen inp] len ne seen s' True
      by simp
    have "composingCycle env inp (UiResponse \<lparr>event = RECEIVE_ACCOUNT, data = d\<rparr> # rest) s
           = composingCycle env inp rest s'"
      using step True set view by simp
    moreover have "compose_calls (trace s') = compose_calls (trace s) + 1"
      using s' True calls1 by (simp add: compose_calls_def)
    ultimately show ?thesis by simp
  next
    case False
    have ins: "showInsufficientFundsView inp s1 = s'"
      using s' False by (simp add: showInsufficientFundsView_def postMessage_def emit_def)
    have "composingCycle env inp (UiResponse \<lparr>event = RECEIVE_ACCOUNT, data = d\<rparr> # rest) s
           = composingCycle env inp rest s'"
      using step False ins by simp
    moreover have "compose_calls (trace s') =
        compose_calls (trace (s1\<lparr>trace := trace s1 @ [PostMessage INSUFFICIENT_FUNDS, ResolveAfter 2000]\<rparr>))"
      using s' False by (simp add: restoreDiscovery_compose_calls)
    then have "compose_calls (trace s') = compose_calls (trace s) + 1"
      using calls1 by (simp add: compose_calls_def)
    ultimately show ?thesis by simp
  qed
qed

subsection \<open>Evaluation on concrete runs\<close>

text \<open>A pin response that arrives in the waiting example session is dropped.\<close>

theorem stray_events_ignored_witness:
  "list_all (\<lambda>r. event r \<noteq> RECEIVE_ACCOUNT \<and> event r \<noteq> RECEIVE_FEE \<and> event r \<noteq> CHANGE_ACCOUNT)
     [\<lparr>event = OTHER_EVENT ''ui-receive_pin'', data = Str ''1234''\<rparr>]
   \<and> composingCycle example_method_env example_input
       [UiResponse \<lparr>event = OTHER_EVENT ''ui-receive_pin'', data = Str ''1234''\<rparr>] example_session
     = (Pending, example_session)"
proof -
  have a: "list_all (\<lambda>r. event r \<noteq> RECEIVE_ACCOUNT \<and> event r \<noteq> RECEIVE_FEE \<and> event r \<noteq> CHANGE_ACCOUNT)
     [\<lparr>event = OTHER_EVENT ''ui-receive_pin'', data = Str ''1234''\<rparr>]"
    by simp
  from stray_events_ignored [OF a, of example_method_env example_input "[]" example_session] a
  show ?thesis by simp
qed

text \<open>
  Against claim C7 as it is stated: an edit of the custom fee that arrives while the
  account view is shown, before any account was selected, is not dropped. The cycle
  throws.
\<close>

theorem stray_events_counterexample:
  "txComposer example_session = None
   \<and> composingCycle example_method_env example_input
       [UiResponse \<lparr>event = RECEIVE_FEE, data = Obj [(''type'', Str ''custom''), (''value'', Str ''5'')]\<rparr>]
       example_session
     = (Threw (Error ''TransactionComposer not initialized.''), example_session)"
proof -
  have a: "txComposer example_session = None"
    by (simp add: example_session_def onUpdate_def postMessage_def emit_def method_begin_def Let_def)
  have b: "get_prop (Obj [(''type'', Str ''custom''), (''value'', Str ''5'')]) ''type'' = Some (Str ''custom'')"
    by (simp add: field_def)
  from custom_fee_without_composer [OF b a] a show ?thesis by simp
qed

text \<open>The user selects account 3 of the example, for which the composer reports two send-max outputs.\<close>

theorem double_send_max_aborts_witness:
  "ErrorResult ''TWO-SEND-MAX'' \<in> set [ErrorResult ''TWO-SEND-MAX'', ErrorResult ''TWO-SEND-MAX'']
   \<and> method example_method_env example_input
       [OnUpdate (example_accounts ! 3) example_accounts,
        UiResponse \<lparr>event = RECEIVE_ACCOUNT, data = Str ''3''\<rparr>]
     = (Threw (Error ''Double send max!''),
        example_session\<lparr>selectedAccount := Some (example_accounts ! 3),
          txComposer := Some \<lparr>composer_account = Some (example_accounts ! 3),
            composed = [ErrorResult ''TWO-SEND-MAX'', ErrorResult ''TWO-SEND-MAX''],
            composed_minus1 = None\<rparr>,
          trace := trace example_session
            @ [StopDiscovering, NewComposer (Some (example_accounts ! 3)), ComposeAllLevels]\<rparr>)"
proof -
  let ?sel = "Some (example_accounts ! 3)"
  have backend: "createBackend example_method_env (name (coinInfo example_input)) = None"
    by (simp add: example_method_env_def)
  have waiting: "composingCycle example_method_env example_input
      [OnUpdate (example_accounts ! 3) example_accounts]
      (emit (method_begin example_method_env example_input) (Discover None)) = (Pending, example_session)"
    by (simp add: example_session_def)
  have sel: "?sel = array_get (accounts example_session) (parseInt (Str ''3''))"
    by code_simp
  have init: "init example_method_env ?sel (outputs example_input) = None"
    by (simp add: example_method_env_def)
  have txs: "composeAllLevels example_method_env ?sel (outputs example_input)
      = Inr [ErrorResult ''TWO-SEND-MAX'', ErrorResult ''TWO-SEND-MAX'']"
    by code_simp
  have two: "ErrorResult ''TWO-SEND-MAX'' \<in> set [ErrorResult ''TWO-SEND-MAX'', ErrorResult ''TWO-SEND-MAX'']"
    by simp
  from double_send_max_aborts [OF backend waiting sel init txs two, of "[]"] two
  show ?thesis by simp
qed

text \<open>
  The user selects account 0 and the second fee level; the device signs and the backend
  of the example refuses the broadcast.
\<close>

theorem broadcast_failure_carries_signed_tx_witness:
  "pushTransaction example_input
   \<and> sendTransactionHex example_method_env ''0100'' = Inl ''Server error''
   \<and> fst (method example_method_env example_input
       [OnUpdate (example_accounts ! 3) example_accounts,
        UiResponse \<lparr>event = RECEIVE_ACCOUNT, data = Str ''0''\<rparr>,
        UiResponse \<lparr>event = RECEIVE_FEE, data = Obj [(''type'', Str ''fee''), (''value'', Str ''1'')]\<rparr>])
     = Threw (PushFailure \<lparr>signatures = [''3045''], serialized_tx = ''0100'', custom = True,
                           error = ''Server error''\<rparr>)"
proof -
  let ?events = "[OnUpdate (example_accounts ! 3) example_accounts,
        UiResponse \<lparr>event = RECEIVE_ACCOUNT, data = Str ''0''\<rparr>,
        UiResponse \<lparr>event = RECEIVE_FEE, data = Obj [(''type'', Str ''fee''), (''value'', Str ''1'')]\<rparr>]"
  let ?start = "emit (method_begin example_method_env example_input) (Discover None)"
  let ?s = "snd (composingCycle example_method_env example_input ?events ?start)"
  let ?tx = "Some (example_final 5)"
  let ?signed = "\<lparr>signatures = [''3045''], serialized_tx = ''0100''\<rparr>"
  have backend: "createBackend example_method_env (name (coinInfo example_input)) = None"
    by (simp add: example_method_env_def)
  have "fst (composingCycle example_method_env example_input ?events ?start) = Returned ?tx"
    by code_simp
  then have cycle: "composingCycle example_method_env example_input ?events ?start = (Returned ?tx, ?s)"
    by (simp add: prod_eq_iff)
  have push: "pushTransaction example_input"
    by (simp add: example_input_def)
  have c: "txComposer ?s \<noteq> None" by code_simp
  have i: "transaction_inputs ?tx = Inr [''prev-tx'']" by (simp add: example_final_def)
  have r: "getReferencedTx example_method_env [''prev-tx''] = Inr [''prev-tx'']"
    by (simp add: example_method_env_def)
  from c i r have refs: "(txComposer ?s = None \<and> [''prev-tx''] = [])
      \<or> (txComposer ?s \<noteq> None \<and> transaction_inputs ?tx = Inr [''prev-tx'']
          \<and> getReferencedTx example_method_env [''prev-tx''] = Inr [''prev-tx''])"
    by simp
  have sign: "signTx example_method_env ?tx [''prev-tx''] (coinInfo example_input) (locktime example_input)
      = Inr ?signed"
    by (simp add: example_method_env_def)
  have send: "sendTransactionHex example_method_env (serialized_tx ?signed) = Inl ''Server error''"
    by (simp add: example_method_env_def)
  from broadcast_failure_carries_signed_tx [OF backend cycle push refs sign send] push send
  show ?thesis by simp
qed

text \<open>
  Claim C1. The backend should be released on every path that ends \<^verbatim>\<open>method\<close> after
  the signature. On the path of a failed broadcast \<^verbatim>\<open>method\<close> throws from inside the
  \<^verbatim>\<open>catch\<close> block and does not reach \<^verbatim>\<open>backend.dispose()\<close>: in this run (account
  0, first fee level, the broadcast fails) the backend is created once and disposed of
  zero times.
\<close>

theorem broadcast_failure_leaves_backend_undisposed:
  "fst (method example_method_env example_input
       [OnUpdate (example_accounts ! 3) example_accounts,
        UiResponse \<lparr>event = RECEIVE_ACCOUNT, data = Str ''0''\<rparr>,
        UiResponse \<lparr>event = RECEIVE_FEE, data = Obj [(''type'', Str ''fee''), (''value'', Str ''0'')]\<rparr>])
     = Threw (PushFailure \<lparr>signatures = [''3045''], serialized_tx = ''0100'', custom = True,
                           error = ''Server error''\<rparr>)
   \<and> count_list (trace (snd (method example_method_env example_input
       [OnUpdate (example_accounts ! 3) example_accounts,
        UiResponse \<lparr>event = RECEIVE_ACCOUNT, data = Str ''0''\<rparr>,
        UiResponse \<lparr>event = RECEIVE_FEE, data = Obj [(''type'', Str ''fee''), (''value'', Str ''0'')]\<rparr>])))
       (CreateBackend ''Bitcoin'') = 1
   \<and> count_list (trace (snd (method example_method_env example_input
       [OnUpdate (example_accounts ! 3) example_accounts,
        UiResponse \<lparr>event = RECEIVE_ACCOUNT, data = Str ''0''\<rparr>,
        UiResponse \<lparr>event = RECEIVE_FEE, data = Obj [(''type'', Str ''fee''), (''value'', Str ''0'')]\<rparr>])))
       Dispose = 0"
  by code_simp

text \<open>
  Against claim C6 as it is stated: for account 3 of the example no fee level composes to
  a final transaction (both results are the error \<^verbatim>\<open>TWO-SEND-MAX\<close>), and the cycle
  throws with no further call of \<^verbatim>\<open>compose\<close>.
\<close>

theorem minimum_fee_retry_counterexample:
  "\<not> list_ex is_final [ErrorResult ''TWO-SEND-MAX'', ErrorResult ''TWO-SEND-MAX'']
   \<and> composeAllLevels example_method_env (array_get (accounts example_session) (parseInt (Str ''3'')))
        (outputs example_input)
       = Inr [ErrorResult ''TWO-SEND-MAX'', ErrorResult ''TWO-SEND-MAX'']
   \<and> fst (composingCycle example_method_env example_input
        [UiResponse \<lparr>event = RECEIVE_ACCOUNT, data = Str ''3''\<rparr>] example_session)
       = Threw (Error ''Double send max!'')
   \<and> compose_calls (trace (snd (composingCycle example_method_env example_input
        [UiResponse \<lparr>event = RECEIVE_ACCOUNT, data = Str ''3''\<rparr>] example_session)))
       = compose_calls (trace example_session)"
  by code_simp

text \<open>
  Account 1 of the example has funds for the minimal fee only: one call of
  \<^verbatim>\<open>compose\<close>, whose result replaces the last composed transaction, and the cycle
  waits.
\<close>

theorem minimum_fee_retry_witness:
  "\<not> list_ex is_final [ErrorResult ''NOT-ENOUGH-FUNDS'', ErrorResult ''NOT-ENOUGH-FUNDS'']
   \<and> ErrorResult ''TWO-SEND-MAX'' \<notin> set [ErrorResult ''NOT-ENOUGH-FUNDS'', ErrorResult ''NOT-ENOUGH-FUNDS'']
   \<and> is_final (example_final 1)
   \<and> fst (composingCycle example_method_env example_input
        [UiResponse \<lparr>event = RECEIVE_ACCOUNT, data = Str ''1''\<rparr>] example_session) = Pending
   \<and> compose_calls (trace (snd (composingCycle example_method_env example_input
        [UiResponse \<lparr>event = RECEIVE_ACCOUNT, data = Str ''1''\<rparr>] example_session)))
       = compose_calls (trace example_session) + 1
   \<and> map_option composed (txComposer (snd (composingCycle example_method_env example_input
        [UiResponse \<lparr>event = RECEIVE_ACCOUNT, data = Str ''1''\<rparr>] example_session)))
       = Some [ErrorResult ''NOT-ENOUGH-FUNDS'', example_final 1]"
proof -
  let ?sel = "Some (example_accounts ! 1)"
  let ?txs = "[ErrorResult ''NOT-ENOUGH-FUNDS'', ErrorResult ''NOT-ENOUGH-FUNDS'']"
  have sel: "?sel = array_get (accounts example_session) (parseInt (Str ''1''))"
    by code_simp
  have init: "init example_method_env ?sel (outputs example_input) = None"
    by (simp add: example_method_env_def)
  have txs: "composeAllLevels example_method_env ?sel (outputs example_input) = Inr ?txs"
    by code_simp
  have nofinal: "\<not> list_ex is_final ?txs" by simp
  have notwo: "ErrorResult ''TWO-SEND-MAX'' \<notin> set ?txs" by simp
  have tx: "example_final 1 = compose example_method_env ?sel (outputs example_input)
      (Fin (minFee (coinInfo example_input)))"
    by code_simp
  have final: "is_final (example_final 1)" by (simp add: example_final_def)
  have levels: "is_final (example_final 1) \<longrightarrow>
      length ?txs = length (feeLevels example_method_env) \<and> feeLevels example_method_env \<noteq> []"
    by (simp add: example_method_env_def)
  from minimum_fee_retry [OF sel init txs nofinal notwo tx levels refl refl refl, of "[]"] final
  have "fst (composingCycle example_method_env example_input
        [UiResponse \<lparr>event = RECEIVE_ACCOUNT, data = Str ''1''\<rparr>] example_session) = Pending"
   and "compose_calls (trace (snd (composingCycle example_method_env example_input
        [UiResponse \<lparr>event = RECEIVE_ACCOUNT, data = Str ''1''\<rparr>] example_session)))
       = compose_calls (trace example_session) + 1"
   and "map_option composed (txComposer (snd (composingCycle example_method_env example_input
        [UiResponse \<lparr>event = RECEIVE_ACCOUNT, data = Str ''1''\<rparr>] example_session)))
       = Some [ErrorResult ''NOT-ENOUGH-FUNDS'', example_final 1]"
    by simp_all
  with nofinal notwo final show ?thesis by simp
qed

end
